theory Spec2Isabelle
  imports Complex_Main "HOL-Library.AList"
begin

section \<open>Symptom severity scoring\<close>

text \<open>
  Source: \<^verbatim>\<open>backend/asthmashield_app/data_collection.py\<close>,
  \<^verbatim>\<open>SymptomDataCollector._calculate_severity\<close>, and the textually separate copy
  \<^verbatim>\<open>SymptomReportView.calculate_severity\<close> in \<^verbatim>\<open>backend/asthmashield_app/views.py\<close>.

  A Python dict keeps its items in insertion order and has no duplicate keys, so the
  \<^verbatim>\<open>symptoms\<close> argument is an association list; the loop
  \<^verbatim>\<open>for symptom, present in symptoms.items()\<close> walks it from the left.
  The functions return one of the three string literals
  \<^verbatim>\<open>'High'\<close>, \<^verbatim>\<open>'Moderate'\<close>, \<^verbatim>\<open>'Low'\<close>.
\<close>

type_synonym symptoms = "(string \<times> bool) list"

definition severity_map :: "(string \<times> int) list" where
  "severity_map =
     [(''wheezing'', 3),
      (''shortness_of_breath'', 3),
      (''chest_tightness'', 2),
      (''coughing'', 2),
      (''difficulty_sleeping'', 1)]"

text \<open>The body of the \<^verbatim>\<open>for\<close> loop of the collector, with the running
  \<^verbatim>\<open>severity_score\<close> as accumulator.\<close>

fun severity_loop :: "int \<Rightarrow> symptoms \<Rightarrow> int" where
  "severity_loop severity_score [] = severity_score"
| "severity_loop severity_score ((symptom, present) # rest) =
     (case map_of severity_map symptom of
        Some w \<Rightarrow>
          (if present then severity_loop (severity_score + w) rest
           else severity_loop severity_score rest)
      | None \<Rightarrow> severity_loop severity_score rest)"

definition calculate_severity :: "symptoms \<Rightarrow> string" where
  "calculate_severity symptoms =
     (let severity_score = severity_loop 0 symptoms
      in if severity_score \<ge> 5 then ''High''
         else if severity_score \<ge> 3 then ''Moderate''
         else ''Low'')"

text \<open>The copy in the web view class: its own table, its own loop, its own thresholds.\<close>

definition view_severity_map :: "(string \<times> int) list" where
  "view_severity_map =
     [(''wheezing'', 3),
      (''shortness_of_breath'', 3),
      (''chest_tightness'', 2),
      (''coughing'', 2),
      (''difficulty_sleeping'', 1)]"

fun view_severity_loop :: "int \<Rightarrow> symptoms \<Rightarrow> int" where
  "view_severity_loop severity_score [] = severity_score"
| "view_severity_loop severity_score ((symptom, present) # rest) =
     (case map_of view_severity_map symptom of
        Some w \<Rightarrow>
          (if present then view_severity_loop (severity_score + w) rest
           else view_severity_loop severity_score rest)
      | None \<Rightarrow> view_severity_loop severity_score rest)"

definition view_calculate_severity :: "symptoms \<Rightarrow> string" where
  "view_calculate_severity symptoms =
     (let severity_score = view_severity_loop 0 symptoms
      in if severity_score \<ge> 5 then ''High''
         else if severity_score \<ge> 3 then ''Moderate''
         else ''Low'')"

text \<open>
  The specification's reading of the score, written from its words: the sum, over the five
  recognised indicators, of the weight of each indicator that the mapping marks present.
\<close>

definition present_weight_sum :: "(string \<rightharpoonup> bool) \<Rightarrow> int" where
  "present_weight_sum m =
     (if m ''wheezing'' = Some True then 3 else 0)
   + (if m ''shortness_of_breath'' = Some True then 3 else 0)
   + (if m ''chest_tightness'' = Some True then 2 else 0)
   + (if m ''coughing'' = Some True then 2 else 0)
   + (if m ''difficulty_sleeping'' = Some True then 1 else 0)"

definition recognized :: "string \<Rightarrow> bool" where
  "recognized symptom = (symptom \<in> set (map fst severity_map))"

text \<open>The order \<^verbatim>\<open>Low < Moderate < High\<close> on the returned tiers.\<close>

definition tier_rank :: "string \<Rightarrow> nat" where
  "tier_rank tier =
     (if tier = ''High'' then 2 else if tier = ''Moderate'' then 1 else 0)"

section \<open>Python values and exceptions\<close>

text \<open>
  The exception classes that the modelled code raises, catches or lets through. A raised
  exception carries its class and the text that \<^verbatim>\<open>str(e)\<close> gives. The source
  defines no exception class of its own: every failure is one of Python's built-in
  classes, and \<^verbatim>\<open>Exception\<close> is the catch-all base class that
  \<^verbatim>\<open>raise Exception(...)\<close> produces. Texts are kept without quotation marks.
\<close>

datatype exc_class =
    Exception
  | FileNotFoundError
  | TypeError
  | AttributeError
  | ValueError
  | IndexError
  | KeyError

datatype py_exc = Raised exc_class string

fun exc_class_of :: "py_exc \<Rightarrow> exc_class" where
  "exc_class_of (Raised c msg) = c"

fun exc_str :: "py_exc \<Rightarrow> string" where
  "exc_str (Raised c msg) = msg"

text \<open>The class of the exception a call ended with, if it ended with one.\<close>

fun raised_class :: "py_exc + 'a \<Rightarrow> exc_class option" where
  "raised_class (Inl e) = Some (exc_class_of e)"
| "raised_class (Inr v) = None"

text \<open>Sequencing of calls that may raise: the first exception ends the block.\<close>

fun and_then :: "py_exc + 'a \<Rightarrow> ('a \<Rightarrow> py_exc + 'b) \<Rightarrow> py_exc + 'b" where
  "and_then (Inl e) f = Inl e"
| "and_then (Inr v) f = f v"

text \<open>An argument value as a caller can pass it: a string or a number.\<close>

datatype pyval = Str string | Num real

text \<open>
  \<^verbatim>\<open>str.lower()\<close> and \<^verbatim>\<open>str.replace(" ", "_")\<close> on ASCII text.
\<close>

definition lower_char :: "char \<Rightarrow> char" where
  "lower_char c =
     (case map_of (zip ''ABCDEFGHIJKLMNOPQRSTUVWXYZ'' ''abcdefghijklmnopqrstuvwxyz'') c of
        Some l \<Rightarrow> l
      | None \<Rightarrow> c)"

definition lower :: "string \<Rightarrow> string" where
  "lower s = map lower_char s"

definition replace_space :: "string \<Rightarrow> string" where
  "replace_space s = map (\<lambda>c. if c = CHR '' '' then CHR ''_'' else c) s"

text \<open>
  \<^verbatim>\<open>dict(pairs)\<close>: keys in order of first occurrence, each with its last value.
\<close>

definition dict_of :: "('k \<times> 'v) list \<Rightarrow> ('k \<times> 'v) list" where
  "dict_of pairs = foldl (\<lambda>d (k, v). AList.update k v d) [] pairs"

section \<open>The feature vector\<close>

text \<open>
  The ten numeric inputs, in the order in which \<^verbatim>\<open>predict_asthma_risk\<close> and
  \<^verbatim>\<open>get_xai_explanation\<close> take them as parameters and in which
  \<^verbatim>\<open>load_and_preprocess_data\<close> lists the feature columns. Python floats are
  modelled as real numbers (no NaN, no infinity, no rounding).
\<close>

record feature_vector =
  pm25 :: real
  pm10 :: real
  temperature :: real
  humidity :: real
  pollen_level :: real
  wind_speed :: real
  pressure :: real
  patient_age :: real
  patient_history_severe_attacks :: real
  medication_adherence :: real

definition features_list :: "feature_vector \<Rightarrow> real list" where
  "features_list fv =
     [pm25 fv, pm10 fv, temperature fv, humidity fv, pollen_level fv,
      wind_speed fv, pressure fv, patient_age fv,
      patient_history_severe_attacks fv, medication_adherence fv]"

section \<open>Persisted artifacts and \<^verbatim>\<open>load_model\<close>\<close>

text \<open>
  Source: \<^verbatim>\<open>backend/asthmashield_app/ml_model/model.py\<close>.

  A fitted scikit-learn pipeline is opaque library code: the model keeps, for each method
  the source calls on it, what that call returns or raises. \<^verbatim>\<open>predict_proba\<close> is
  \<open>None\<close> when \<^verbatim>\<open>hasattr(model, "predict_proba")\<close> is false.
\<close>

record pipeline =
  predict :: "real list \<Rightarrow> py_exc + nat"
  predict_proba :: "(real list \<Rightarrow> py_exc + real list) option"
  scaler_transform :: "real list \<Rightarrow> py_exc + real list"
  classifier_predict_proba :: "(real list \<Rightarrow> py_exc + real list) option"
  has_feature_importances :: bool

record label_encoder =
  classes :: "string list"

text \<open>\<^verbatim>\<open>label_encoder.inverse_transform([i])[0]\<close>: an unseen index raises.\<close>

definition inverse_transform :: "label_encoder \<Rightarrow> nat \<Rightarrow> py_exc + string" where
  "inverse_transform le i =
     (if i < length (classes le) then Inr (classes le ! i)
      else Inl (Raised ValueError ''y contains previously unseen labels''))"

text \<open>
  The model directory. \<^verbatim>\<open>model_files\<close> maps a file name ending in
  \<^verbatim>\<open>_model.pkl\<close> to the pipeline pickled there; the two shared files
  \<^verbatim>\<open>label_encoder.pkl\<close> and \<^verbatim>\<open>feature_columns.pkl\<close> are present or absent.
  A file that is present unpickles to what was dumped into it.
\<close>

record model_dir =
  model_files :: "string \<rightharpoonup> pipeline"
  label_encoder_pkl :: "label_encoder option"
  feature_columns_pkl :: "string list option"

definition model_filename :: "string \<Rightarrow> string" where
  "model_filename model_type = replace_space (lower model_type) @ ''_model.pkl''"

text \<open>\<^verbatim>\<open>joblib.load(path)\<close> on an absent file.\<close>

definition no_such_file :: "string \<Rightarrow> py_exc" where
  "no_such_file path =
     Raised FileNotFoundError (''[Errno 2] No such file or directory: '' @ path)"

text \<open>
  The \<^verbatim>\<open>try\<close> block of \<^verbatim>\<open>load_model\<close>. A \<^verbatim>\<open>model_type\<close> that is not a
  string has no \<^verbatim>\<open>lower\<close> method.
\<close>

fun load_model_try :: "model_dir \<Rightarrow> pyval \<Rightarrow> py_exc + (pipeline \<times> label_encoder \<times> string list)" where
  "load_model_try md (Num x) =
     Inl (Raised AttributeError ''float object has no attribute lower'')"
| "load_model_try md (Str model_type) =
     (let model_path =
            (if model_files md (model_filename model_type) = None
             then ''random_forest_model.pkl''
             else model_filename model_type)
      in case model_files md model_path of
           None \<Rightarrow> Inl (no_such_file model_path)
         | Some model \<Rightarrow>
             (case label_encoder_pkl md of
                None \<Rightarrow> Inl (no_such_file ''label_encoder.pkl'')
              | Some label_encoder \<Rightarrow>
                  (case feature_columns_pkl md of
                     None \<Rightarrow> Inl (no_such_file ''feature_columns.pkl'')
                   | Some feature_columns \<Rightarrow> Inr (model, label_encoder, feature_columns))))"

text \<open>
  \<^verbatim>\<open>except FileNotFoundError as e: raise FileNotFoundError(...)\<close>: only that class is
  caught and re-raised with the longer text; any other exception passes through.
\<close>

definition load_model :: "model_dir \<Rightarrow> pyval \<Rightarrow> py_exc + (pipeline \<times> label_encoder \<times> string list)" where
  "load_model md model_type =
     (case load_model_try md model_type of
        Inl e \<Rightarrow>
          (if exc_class_of e = FileNotFoundError
           then Inl (Raised FileNotFoundError
                  (''Model files not found. Please train the model first using train_model.py. Error: ''
                     @ exc_str e))
           else Inl e)
      | Inr loaded \<Rightarrow> Inr loaded)"

section \<open>Explanations\<close>

text \<open>
  Source: \<^verbatim>\<open>backend/asthmashield_app/ml_model/xai_explainer.py\<close>.

  The SHAP and LIME packages are library code. An explainer object is modelled by the one
  method the source calls on it: a SHAP explainer by \<^verbatim>\<open>shap_values\<close> on the processed
  row, a LIME explainer by \<^verbatim>\<open>explain_instance\<close>, and the explanation that returns by
  \<^verbatim>\<open>as_list(label=...)\<close>. Each may raise. \<^verbatim>\<open>shap_values\<close> returns a list with one
  array per class, or a single array; an array has one row per input row.
\<close>

datatype shap_output = PerClass "real list list list" | SingleArray "real list list"

type_synonym shap_explainer = "real list \<Rightarrow> py_exc + shap_output"

type_synonym lime_explanation = "nat \<Rightarrow> py_exc + (string \<times> real) list"

type_synonym lime_explainer = "real list \<Rightarrow> py_exc + lime_explanation"

text \<open>The constructors the source calls, with what they return or raise.\<close>

record xai_library =
  TreeExplainer :: "pipeline \<Rightarrow> py_exc + shap_explainer"
  KernelExplainer :: "(real list \<Rightarrow> py_exc + real list) \<Rightarrow> py_exc + shap_explainer"
  LimeTabularExplainer :: "string list \<Rightarrow> string list \<Rightarrow> py_exc + lime_explainer"

text \<open>
  The dict an explanation method returns. Every one has the key
  \<^verbatim>\<open>explanation_method\<close>; the SHAP payload has \<^verbatim>\<open>feature_importance\<close> and
  \<^verbatim>\<open>shap_values\<close>, the LIME payload \<^verbatim>\<open>predicted_class\<close>, \<^verbatim>\<open>feature_weights\<close> and
  \<^verbatim>\<open>explanation\<close>, and the payload of a failed method the key \<^verbatim>\<open>error\<close>.
\<close>

datatype explanation =
    ShapPayload "(string \<times> real) list" "real list"
  | LimePayload string "(string \<times> real) list" "(string \<times> real) list"
  | ErrorPayload string string

fun has_error_key :: "explanation \<Rightarrow> bool" where
  "has_error_key (ErrorPayload msg explanation_method) = True"
| "has_error_key (ShapPayload feature_importance shap_vals) = False"
| "has_error_key (LimePayload predicted_class feature_weights expl) = False"

text \<open>The fields of an \<^verbatim>\<open>XAIExplainer\<close> object.\<close>

record xai_explainer =
  self_model :: pipeline
  self_label_encoder :: label_encoder
  self_feature_columns :: "string list"
  self_model_type :: pyval
  explainer_shap :: "shap_explainer option"
  explainer_lime :: "lime_explainer option"

definition XAIExplainer_init :: "model_dir \<Rightarrow> pyval \<Rightarrow> py_exc + xai_explainer" where
  "XAIExplainer_init md model_type =
     and_then (load_model md model_type) (\<lambda>(m, le, fc).
       Inr \<lparr>self_model = m, self_label_encoder = le, self_feature_columns = fc,
            self_model_type = model_type, explainer_shap = None, explainer_lime = None\<rparr>)"

text \<open>
  \<^verbatim>\<open>initialize_shap\<close> with no sample: a tree explainer for a classifier with feature
  importances, else a kernel explainer over the classifier's \<^verbatim>\<open>predict_proba\<close>. Every
  exception is caught; the result is the returned flag and the object as it is left.
\<close>

definition initialize_shap :: "xai_library \<Rightarrow> xai_explainer \<Rightarrow> bool \<times> xai_explainer" where
  "initialize_shap lib self =
     (case (if has_feature_importances (self_model self)
            then TreeExplainer lib (self_model self)
            else (case classifier_predict_proba (self_model self) of
                    None \<Rightarrow> Inl (Raised AttributeError ''classifier has no attribute predict_proba'')
                  | Some proba \<Rightarrow> KernelExplainer lib proba)) of
        Inl e \<Rightarrow> (False, self)
      | Inr ex \<Rightarrow> (True, self\<lparr>explainer_shap := Some ex\<rparr>))"

definition initialize_lime :: "xai_library \<Rightarrow> xai_explainer \<Rightarrow> bool \<times> xai_explainer" where
  "initialize_lime lib self =
     (case LimeTabularExplainer lib (self_feature_columns self)
             (classes (self_label_encoder self)) of
        Inl e \<Rightarrow> (False, self)
      | Inr ex \<Rightarrow> (True, self\<lparr>explainer_lime := Some ex\<rparr>))"

text \<open>\<^verbatim>\<open>shap_vals[0]\<close>: the first row of an array.\<close>

definition first_row :: "real list list \<Rightarrow> py_exc + real list" where
  "first_row rows =
     (case rows of
        [] \<Rightarrow> Inl (Raised IndexError ''index 0 is out of bounds'')
      | r # others \<Rightarrow> Inr r)"

text \<open>The \<^verbatim>\<open>try\<close> block of \<^verbatim>\<open>explain_shap\<close>, after the explainer was initialised.\<close>

definition explain_shap_try :: "xai_explainer \<Rightarrow> real list \<Rightarrow> py_exc + explanation" where
  "explain_shap_try self features =
     and_then (scaler_transform (self_model self) features) (\<lambda>features_processed.
     and_then (case explainer_shap self of
                 None \<Rightarrow> Inl (Raised AttributeError ''NoneType object has no attribute shap_values'')
               | Some ex \<Rightarrow> ex features_processed) (\<lambda>shap_values.
     and_then (case shap_values of
                 PerClass arrays \<Rightarrow>
                   and_then (predict (self_model self) features) (\<lambda>class_idx.
                     if class_idx < length arrays then Inr (arrays ! class_idx)
                     else Inl (Raised IndexError ''list index out of range''))
               | SingleArray array \<Rightarrow> Inr array) (\<lambda>shap_vals.
     and_then (first_row shap_vals) (\<lambda>row.
       Inr (ShapPayload (dict_of (zip (self_feature_columns self) row)) row)))))"

definition explain_shap :: "xai_library \<Rightarrow> xai_explainer \<Rightarrow> real list \<Rightarrow> explanation \<times> xai_explainer" where
  "explain_shap lib self features =
     (let self1 = (if explainer_shap self = None then snd (initialize_shap lib self) else self)
      in case explain_shap_try self1 features of
           Inl e \<Rightarrow> (ErrorPayload (''SHAP explanation failed: '' @ exc_str e) ''SHAP'', self1)
         | Inr payload \<Rightarrow> (payload, self1))"

definition explain_lime_try :: "xai_explainer \<Rightarrow> real list \<Rightarrow> py_exc + explanation" where
  "explain_lime_try self features =
     and_then (case explainer_lime self of
                 None \<Rightarrow> Inl (Raised AttributeError ''NoneType object has no attribute explain_instance'')
               | Some ex \<Rightarrow> ex features) (\<lambda>exp.
     and_then (predict (self_model self) features) (\<lambda>prediction.
     and_then (inverse_transform (self_label_encoder self) prediction) (\<lambda>class_label.
     and_then (exp prediction) (\<lambda>expl.
       Inr (LimePayload class_label (dict_of expl) expl)))))"

definition explain_lime :: "xai_library \<Rightarrow> xai_explainer \<Rightarrow> real list \<Rightarrow> explanation \<times> xai_explainer" where
  "explain_lime lib self features =
     (let self1 = (if explainer_lime self = None then snd (initialize_lime lib self) else self)
      in case explain_lime_try self1 features of
           Inl e \<Rightarrow> (ErrorPayload (''LIME explanation failed: '' @ exc_str e) ''LIME'', self1)
         | Inr payload \<Rightarrow> (payload, self1))"

text \<open>
  The dict \<^verbatim>\<open>get_xai_explanation\<close> returns: under \<^verbatim>\<open>shap\<close> and \<^verbatim>\<open>lime\<close> a payload,
  under \<^verbatim>\<open>error\<close> a text. The constructor \<^verbatim>\<open>XAIExplainer()\<close> runs inside the
  \<^verbatim>\<open>try\<close>; the two explanation methods catch their own exceptions.
\<close>

datatype xai_value = Slot explanation | Message string

type_synonym explanations = "(string \<times> xai_value) list"

definition get_xai_explanation :: "xai_library \<Rightarrow> model_dir \<Rightarrow> feature_vector \<Rightarrow> string \<Rightarrow> explanations" where
  "get_xai_explanation lib md fv method =
     (let features = features_list fv in
      case XAIExplainer_init md (Str ''best'') of
        Inl e \<Rightarrow> [(''error'', Message (''XAI explanation failed: '' @ exc_str e))]
      | Inr explainer \<Rightarrow>
          (let explanations = [];
               (explanations, explainer) =
                 (if method = ''shap'' \<or> method = ''both''
                  then (let (shap_explanation, explainer) = explain_shap lib explainer features
                        in (AList.update ''shap'' (Slot shap_explanation) explanations, explainer))
                  else (explanations, explainer));
               (explanations, explainer) =
                 (if method = ''lime'' \<or> method = ''both''
                  then (let (lime_explanation, explainer) = explain_lime lib explainer features
                        in (AList.update ''lime'' (Slot lime_explanation) explanations, explainer))
                  else (explanations, explainer))
           in explanations))"

definition has_key :: "('k \<times> 'v) list \<Rightarrow> 'k \<Rightarrow> bool" where
  "has_key d k = (map_of d k \<noteq> None)"

section \<open>Prediction\<close>

text \<open>
  Source: \<^verbatim>\<open>backend/asthmashield_app/ml_model/model.py\<close>, \<^verbatim>\<open>predict_asthma_risk\<close>.

  The returned dict. The key \<^verbatim>\<open>xai_explanations\<close> is there only when explanations
  were asked for. The import of the explanation module is taken to succeed, so the key
  \<^verbatim>\<open>xai_error\<close> never appears.
\<close>

record prediction_result =
  risk_level :: string
  confidence :: "real option"
  probabilities :: "(string \<times> real) list option"
  xai_explanations :: "explanations option"

text \<open>The \<^verbatim>\<open>try\<close> block. The loaded \<^verbatim>\<open>feature_columns\<close> is not read again.\<close>

definition predict_asthma_risk_try ::
  "xai_library \<Rightarrow> model_dir \<Rightarrow> feature_vector \<Rightarrow> pyval \<Rightarrow> bool \<Rightarrow> py_exc + prediction_result" where
  "predict_asthma_risk_try lib md fv model_type include_xai =
     and_then (load_model md model_type) (\<lambda>(model, label_encoder, feature_columns).
     let features = features_list fv in
     and_then (predict model features) (\<lambda>prediction_encoded.
     and_then (case predict_proba model of
                 None \<Rightarrow> Inr None
               | Some proba \<Rightarrow> and_then (proba features) (\<lambda>ps. Inr (Some ps))) (\<lambda>probs.
     and_then (inverse_transform label_encoder prediction_encoded) (\<lambda>prediction.
     and_then (case probs of
                 None \<Rightarrow> Inr None
               | Some ps \<Rightarrow>
                   (if ps = [] then Inl (Raised ValueError ''max() arg is an empty sequence'')
                    else Inr (Some (foldl max (hd ps) (tl ps))))) (\<lambda>conf.
     let result =
           \<lparr>risk_level = prediction,
            confidence = conf,
            probabilities = map_option (\<lambda>ps. dict_of (zip (classes label_encoder) ps)) probs,
            xai_explanations = None\<rparr>
     in Inr (if include_xai
             then result\<lparr>xai_explanations := Some (get_xai_explanation lib md fv ''both'')\<rparr>
             else result))))))"

text \<open>\<^verbatim>\<open>except Exception as e: raise Exception(f"Error during prediction: {str(e)}")\<close>\<close>

definition predict_asthma_risk ::
  "xai_library \<Rightarrow> model_dir \<Rightarrow> feature_vector \<Rightarrow> pyval \<Rightarrow> bool \<Rightarrow> py_exc + prediction_result" where
  "predict_asthma_risk lib md fv model_type include_xai =
     (case predict_asthma_risk_try lib md fv model_type include_xai of
        Inl e \<Rightarrow> Inl (Raised Exception (''Error during prediction: '' @ exc_str e))
      | Inr result \<Rightarrow> Inr result)"

text \<open>
  A call \<^verbatim>\<open>predict_asthma_risk(*args)\<close> with a vector of numbers as positional
  arguments. The function has ten required parameters and two optional ones
  (\<^verbatim>\<open>model_type\<close>, \<^verbatim>\<open>include_xai\<close>): fewer than ten or more than twelve values make
  Python raise \<^verbatim>\<open>TypeError\<close> before the body runs; an eleventh value is bound to
  \<^verbatim>\<open>model_type\<close> and a twelfth to \<^verbatim>\<open>include_xai\<close>.
\<close>

definition feature_vector_of :: "real list \<Rightarrow> feature_vector" where
  "feature_vector_of args =
     \<lparr>pm25 = args ! 0, pm10 = args ! 1, temperature = args ! 2, humidity = args ! 3,
      pollen_level = args ! 4, wind_speed = args ! 5, pressure = args ! 6,
      patient_age = args ! 7, patient_history_severe_attacks = args ! 8,
      medication_adherence = args ! 9\<rparr>"

definition call_predict_asthma_risk ::
  "xai_library \<Rightarrow> model_dir \<Rightarrow> real list \<Rightarrow> py_exc + prediction_result" where
  "call_predict_asthma_risk lib md args =
     (if length args < 10
      then Inl (Raised TypeError ''predict_asthma_risk() missing required positional arguments'')
      else if 12 < length args
      then Inl (Raised TypeError ''predict_asthma_risk() takes from 10 to 12 positional arguments'')
      else predict_asthma_risk lib md (feature_vector_of args)
             (if 10 < length args then Num (args ! 10) else Str ''best'')
             (if 11 < length args then args ! 11 \<noteq> 0 else False))"

section \<open>Concrete artifacts for the examples\<close>

text \<open>A pipeline that predicts the class \<open>k\<close> with certainty, and has no tree classifier.\<close>

definition constant_pipeline :: "nat \<Rightarrow> pipeline" where
  "constant_pipeline k =
     \<lparr>predict = (\<lambda>x. Inr k),
      predict_proba = None,
      scaler_transform = (\<lambda>x. Inr x),
      classifier_predict_proba = None,
      has_feature_importances = False\<rparr>"

definition risk_encoder :: label_encoder where
  "risk_encoder = \<lparr>classes = [''High'', ''Low'', ''Moderate'']\<rparr>"

definition feature_columns_10 :: "string list" where
  "feature_columns_10 =
     [''pm25'', ''pm10'', ''temperature'', ''humidity'', ''pollen_level'', ''wind_speed'',
      ''pressure'', ''patient_age'', ''patient_history_severe_attacks'',
      ''medication_adherence'']"

text \<open>A model directory before any training, and one after a random forest was saved.\<close>

definition empty_dir :: model_dir where
  "empty_dir = \<lparr>model_files = Map.empty, label_encoder_pkl = None, feature_columns_pkl = None\<rparr>"

definition trained_dir :: model_dir where
  "trained_dir =
     \<lparr>model_files = [''random_forest_model.pkl'' \<mapsto> constant_pipeline 1],
      label_encoder_pkl = Some risk_encoder,
      feature_columns_pkl = Some feature_columns_10\<rparr>"

text \<open>A directory in which the model file is left but the label encoder file is gone.\<close>

definition model_only_dir :: model_dir where
  "model_only_dir =
     \<lparr>model_files = [''svm_model.pkl'' \<mapsto> constant_pipeline 0],
      label_encoder_pkl = None,
      feature_columns_pkl = Some feature_columns_10\<rparr>"

text \<open>Explanation packages whose constructors all raise.\<close>

definition failing_library :: xai_library where
  "failing_library =
     \<lparr>TreeExplainer = (\<lambda>m. Inl (Raised ValueError ''unsupported model'')),
      KernelExplainer = (\<lambda>f. Inl (Raised ValueError ''unsupported model'')),
      LimeTabularExplainer = (\<lambda>names cs. Inl (Raised ValueError ''bad training data''))\<rparr>"

text \<open>
  Explanation packages of which only LIME works: its explanation of any class is one
  weighted condition on \<^verbatim>\<open>pm25\<close>.
\<close>

definition lime_only_library :: xai_library where
  "lime_only_library =
     \<lparr>TreeExplainer = (\<lambda>m. Inl (Raised ValueError ''unsupported model'')),
      KernelExplainer = (\<lambda>f. Inl (Raised ValueError ''unsupported model'')),
      LimeTabularExplainer =
        (\<lambda>names cs. Inr (\<lambda>features. Inr (\<lambda>label. Inr [(''pm25 > 50.00'', 0.3)])))\<rparr>"

text \<open>The feature values of the specification's scenario.\<close>

definition scenario_features :: feature_vector where
  "scenario_features =
     \<lparr>pm25 = 92, pm10 = 135, temperature = 31, humidity = 56, pollen_level = 50,
      wind_speed = 3.2, pressure = 1013, patient_age = 35,
      patient_history_severe_attacks = 2, medication_adherence = 0.8\<rparr>"

definition zero_features :: feature_vector where
  "zero_features =
     \<lparr>pm25 = 0, pm10 = 0, temperature = 0, humidity = 0, pollen_level = 0,
      wind_speed = 0, pressure = 0, patient_age = 0,
      patient_history_severe_attacks = 0, medication_adherence = 0\<rparr>"

section \<open>Data augmentation\<close>

text \<open>
  Source: \<^verbatim>\<open>backend/train_model.py\<close>, \<^verbatim>\<open>augment_data\<close>.

  The data frame \<^verbatim>\<open>df\<close> is the feature table with the \<^verbatim>\<open>target\<close> column added: a
  list of rows, each a feature vector with its encoded label. The random draws of iteration
  \<open>i\<close> come from a tape: a natural number for \<^verbatim>\<open>np.random.randint(0, len(df))\<close>,
  which returns some index below \<^verbatim>\<open>len(df)\<close> (the tape's number reduced modulo the
  length, so that every tape is a run and every run has a tape), and one standard normal
  draw per feature column: \<^verbatim>\<open>np.random.normal(0, s)\<close> is \<open>s\<close> times such a draw.
\<close>

type_synonym sample = "feature_vector \<times> nat"

record draw =
  randint_draw :: nat
  normal_draws :: feature_vector

definition noise_factor :: real where
  "noise_factor = 0.1"

text \<open>\<^verbatim>\<open>sample[col] += np.random.normal(0, noise_factor * abs(sample[col]))\<close>\<close>

definition add_noise :: "real \<Rightarrow> real \<Rightarrow> real" where
  "add_noise v standard_normal = v + (noise_factor * \<bar>v\<bar>) * standard_normal"

definition perturb :: "feature_vector \<Rightarrow> feature_vector \<Rightarrow> feature_vector" where
  "perturb fv zs =
     \<lparr>pm25 = add_noise (pm25 fv) (pm25 zs),
      pm10 = add_noise (pm10 fv) (pm10 zs),
      temperature = add_noise (temperature fv) (temperature zs),
      humidity = add_noise (humidity fv) (humidity zs),
      pollen_level = add_noise (pollen_level fv) (pollen_level zs),
      wind_speed = add_noise (wind_speed fv) (wind_speed zs),
      pressure = add_noise (pressure fv) (pressure zs),
      patient_age = add_noise (patient_age fv) (patient_age zs),
      patient_history_severe_attacks =
        add_noise (patient_history_severe_attacks fv) (patient_history_severe_attacks zs),
      medication_adherence = add_noise (medication_adherence fv) (medication_adherence zs)\<rparr>"

text \<open>The four assignments under \<^verbatim>\<open># Ensure realistic bounds\<close>.\<close>

definition ensure_bounds :: "feature_vector \<Rightarrow> feature_vector" where
  "ensure_bounds fv =
     fv\<lparr>pm25 := max 0 (pm25 fv),
        pm10 := max 0 (pm10 fv),
        humidity := max 0 (min 100 (humidity fv)),
        medication_adherence := max 0 (min 1 (medication_adherence fv))\<rparr>"

text \<open>One pass of the loop body on a non-empty frame: the row appended to
  \<^verbatim>\<open>augmented_data\<close>. The label is copied from the source row.\<close>

definition synthetic_row :: "sample list \<Rightarrow> draw \<Rightarrow> sample" where
  "synthetic_row df d =
     (let sample_idx = randint_draw d mod length df;
          source = df ! sample_idx
      in (ensure_bounds (perturb (fst source) (normal_draws d)), snd source))"

text \<open>
  \<^verbatim>\<open>df['target'] = y\<close> raises when \<^verbatim>\<open>y\<close> has another length than the table;
  \<^verbatim>\<open>np.random.randint(0, 0)\<close> raises in the first iteration on an empty table. The
  result is \<^verbatim>\<open>(X_combined, y_combined)\<close>, the original rows first.
\<close>

definition augment_data ::
  "feature_vector list \<Rightarrow> nat list \<Rightarrow> nat \<Rightarrow> (nat \<Rightarrow> draw) \<Rightarrow>
     py_exc + (feature_vector list \<times> nat list)" where
  "augment_data X y n_augment rnd =
     (if length y \<noteq> length X
      then Inl (Raised ValueError ''Length of values does not match length of index'')
      else
        let df = zip X y in
        if 0 < n_augment \<and> df = []
        then Inl (Raised ValueError ''low >= high'')
        else
          let augmented_data = map (\<lambda>i. synthetic_row df (rnd i)) [0..<n_augment];
              combined_df = df @ augmented_data
          in Inr (map fst combined_df, map snd combined_df))"

definition in_bounds :: "feature_vector \<Rightarrow> bool" where
  "in_bounds fv =
     (0 \<le> pm25 fv \<and> 0 \<le> pm10 fv \<and> 0 \<le> humidity fv \<and> humidity fv \<le> 100
      \<and> 0 \<le> medication_adherence fv \<and> medication_adherence fv \<le> 1)"

section \<open>Training and model selection\<close>

text \<open>
  Source: \<^verbatim>\<open>backend/train_model.py\<close>, \<^verbatim>\<open>train_multiple_models\<close>,
  \<^verbatim>\<open>evaluate_models\<close>, \<^verbatim>\<open>save_model\<close>, \<^verbatim>\<open>validate_xai_compatibility\<close>,
  \<^verbatim>\<open>generate_risk_insights\<close> and \<^verbatim>\<open>train_model\<close>.

  The entry that \<^verbatim>\<open>results[name]\<close> holds for a family that trained, with its six
  keys. \<^verbatim>\<open>predictions\<close> are the classes predicted for the test rows.
\<close>

record family_result =
  model :: pipeline
  accuracy :: real
  cv_mean :: real
  cv_std :: real
  best_params :: "(string \<times> string) list"
  predictions :: "nat list"

type_synonym results = "(string \<times> family_result) list"

text \<open>The keys of the \<^verbatim>\<open>models\<close> dict, in the order the loop visits them.\<close>

definition model_names :: "string list" where
  "model_names = [''Random Forest'', ''Logistic Regression'', ''Gradient Boosting'', ''SVM'']"

text \<open>
  The loop of \<^verbatim>\<open>train_multiple_models\<close>. What the \<^verbatim>\<open>try\<close> block of a family does
  (grid search, test accuracy, cross-validation) is library code: \<open>fit\<close> gives its
  outcome, the entry to store or the exception raised. \<^verbatim>\<open>except Exception\<close> prints
  and goes on with the next family.
\<close>

fun train_loop :: "(string \<Rightarrow> py_exc + family_result) \<Rightarrow> string list \<Rightarrow> results \<Rightarrow> results" where
  "train_loop fit [] results = results"
| "train_loop fit (name # rest) results =
     (case fit name of
        Inl e \<Rightarrow> train_loop fit rest results
      | Inr entry \<Rightarrow> train_loop fit rest (AList.update name entry results))"

definition train_multiple_models :: "(string \<Rightarrow> py_exc + family_result) \<Rightarrow> results" where
  "train_multiple_models fit = train_loop fit model_names []"

text \<open>
  \<^verbatim>\<open>sorted(results.items(), key=lambda x: x[1]['accuracy'], reverse=True)\<close>: Python's
  sort is stable, also with \<^verbatim>\<open>reverse=True\<close>, so items of equal accuracy keep the order
  of the dict.
\<close>

definition sorted_models :: "results \<Rightarrow> results" where
  "sorted_models results = sort_key (\<lambda>x. - accuracy (snd x)) results"

text \<open>
  scikit-learn's \<^verbatim>\<open>classification_report(y_true, y_pred, target_names=...)\<close> is library
  code: it returns the report text or raises.
\<close>

type_synonym report_fn = "nat list \<Rightarrow> nat list \<Rightarrow> string list \<Rightarrow> py_exc + string"

text \<open>
  The \<^verbatim>\<open>for name, result in sorted_models\<close> loop of \<^verbatim>\<open>evaluate_models\<close>: it prints
  the scores of each family and its classification report against \<^verbatim>\<open>y_test\<close> with
  \<^verbatim>\<open>le.classes_\<close> as target names. The first report that raises ends the function.
\<close>

fun report_loop :: "report_fn \<Rightarrow> results \<Rightarrow> nat list \<Rightarrow> label_encoder \<Rightarrow> py_exc + unit" where
  "report_loop report [] y_test le = Inr ()"
| "report_loop report ((name, result) # rest) y_test le =
     (case report y_test (predictions result) (classes le) of
        Inl e \<Rightarrow> Inl e
      | Inr printed \<Rightarrow> report_loop report rest y_test le)"

text \<open>
  \<^verbatim>\<open>evaluate_models(results, y_test, le)\<close>: the report loop, then the selection
  \<^verbatim>\<open>sorted_models[0][0]\<close>, which raises on an empty list.
\<close>

definition evaluate_models ::
  "report_fn \<Rightarrow> results \<Rightarrow> nat list \<Rightarrow> label_encoder \<Rightarrow> py_exc + (string \<times> pipeline)" where
  "evaluate_models report results y_test le =
     (let ranking = sorted_models results in
      case report_loop report ranking y_test le of
        Inl e \<Rightarrow> Inl e
      | Inr done \<Rightarrow>
          (case ranking of
             [] \<Rightarrow> Inl (Raised IndexError ''list index out of range'')
           | first # others \<Rightarrow>
               (let best_model_name = fst first in
                case map_of results best_model_name of
                  None \<Rightarrow> Inl (Raised KeyError best_model_name)
                | Some entry \<Rightarrow> Inr (best_model_name, model entry))))"

text \<open>\<^verbatim>\<open>save_model\<close>: the three \<^verbatim>\<open>joblib.dump\<close> calls, taken to succeed as writes.\<close>

definition save_model :: "model_dir \<Rightarrow> pipeline \<Rightarrow> label_encoder \<Rightarrow> string \<Rightarrow> string list \<Rightarrow> model_dir" where
  "save_model md best_model le model_name feature_columns =
     md\<lparr>model_files := (model_files md)(model_filename model_name \<mapsto> best_model),
        label_encoder_pkl := Some le,
        feature_columns_pkl := Some feature_columns\<rparr>"

text \<open>
  \<^verbatim>\<open>validate_xai_compatibility\<close>: false when the classifier has no
  \<^verbatim>\<open>predict_proba\<close>, true otherwise; it catches every exception and only prints.
\<close>

definition validate_xai_compatibility :: "pipeline \<Rightarrow> bool" where
  "validate_xai_compatibility m = (classifier_predict_proba m \<noteq> None)"

text \<open>
  \<^verbatim>\<open>le.inverse_transform(y)\<close> on a whole label array. An empty array gives an empty
  array; a label outside the classes raises \<^verbatim>\<open>ValueError\<close>; then \<^verbatim>\<open>self.classes_[y]\<close>
  indexes with the array, which numpy refuses with \<^verbatim>\<open>IndexError\<close> when the array has a
  float dtype. \<open>y_float\<close> says that the array has a float dtype.
\<close>

definition inverse_transform_all :: "label_encoder \<Rightarrow> nat list \<Rightarrow> bool \<Rightarrow> py_exc + string list" where
  "inverse_transform_all le y y_float =
     (if y = [] then Inr []
      else if list_ex (\<lambda>label. length (classes le) \<le> label) y
      then Inl (Raised ValueError ''y contains previously unseen labels'')
      else if y_float
      then Inl (Raised IndexError
             ''arrays used as indices must be of integer (or boolean) type'')
      else Inr (map (\<lambda>label. classes le ! label) y))"

text \<open>
  \<^verbatim>\<open>generate_risk_insights\<close>: the labels are decoded and put into a frame beside the
  features, which raises when their number is not the number of rows; the statistics printed
  after that are taken not to raise.
\<close>

definition generate_risk_insights ::
  "feature_vector list \<Rightarrow> nat list \<Rightarrow> bool \<Rightarrow> label_encoder \<Rightarrow> string list \<Rightarrow> py_exc + unit" where
  "generate_risk_insights X y y_float le feature_columns =
     and_then (inverse_transform_all le y y_float) (\<lambda>y_labels.
       if length y_labels \<noteq> length X
       then Inl (Raised ValueError ''Length of values does not match length of index'')
       else Inr ())"

text \<open>
  What \<^verbatim>\<open>train_model\<close> takes from outside: the data set that
  \<^verbatim>\<open>load_and_preprocess_data\<close> reads (features, encoded labels, label encoder) or the
  exception it raises, the tape of random draws, scikit-learn's \<^verbatim>\<open>train_test_split\<close>
  (returning \<^verbatim>\<open>X_train, X_test, y_train, y_test\<close>), the outcome of a family's
  \<^verbatim>\<open>try\<close> block on a given split, and \<^verbatim>\<open>classification_report\<close>.
\<close>

record training_env =
  load_and_preprocess_data :: "py_exc + (feature_vector list \<times> nat list \<times> label_encoder)"
  random_tape :: "nat \<Rightarrow> draw"
  train_test_split ::
    "feature_vector list \<Rightarrow> nat list \<Rightarrow>
       py_exc + (feature_vector list \<times> feature_vector list \<times> nat list \<times> nat list)"
  fit_family ::
    "feature_vector list \<Rightarrow> nat list \<Rightarrow> feature_vector list \<Rightarrow> nat list \<Rightarrow> string \<Rightarrow>
       py_exc + family_result"
  classification_report :: report_fn

text \<open>
  The first part of \<^verbatim>\<open>train_model\<close>: load, augment when the flag is set, split. The
  labels that \<^verbatim>\<open>le.fit_transform\<close> gives are integers. Those that \<^verbatim>\<open>augment_data\<close>
  returns are floats: each sampled row is a float series, so the \<^verbatim>\<open>target\<close> column of the
  combined frame has dtype float64. The list \<^verbatim>\<open>feature_columns\<close> is the literal in
  \<^verbatim>\<open>load_and_preprocess_data\<close>, here \<open>feature_columns_10\<close>. The result is
  \<^verbatim>\<open>X\<close>, \<^verbatim>\<open>y_encoded\<close>, whether the labels are floats, \<^verbatim>\<open>le\<close>, and the split.
\<close>

definition prepare_data ::
  "training_env \<Rightarrow> bool \<Rightarrow>
     py_exc + (feature_vector list \<times> nat list \<times> bool \<times> label_encoder
               \<times> feature_vector list \<times> feature_vector list \<times> nat list \<times> nat list)" where
  "prepare_data env augment_data_flag =
     and_then (load_and_preprocess_data env) (\<lambda>(X0, y0, le).
     and_then (if augment_data_flag
               then and_then (augment_data X0 y0 1000 (random_tape env))
                      (\<lambda>(X, y_encoded). Inr (X, y_encoded, True))
               else Inr (X0, y0, False)) (\<lambda>(X, y_encoded, y_float).
     and_then (train_test_split env X y_encoded) (\<lambda>(X_train, X_test, y_train, y_test).
       Inr (X, y_encoded, y_float, le, X_train, X_test, y_train, y_test))))"

text \<open>
  \<^verbatim>\<open>train_model(model_type, augment_data_flag)\<close>; the body never reads
  \<^verbatim>\<open>model_type\<close>. The result is the returned pair, \<^verbatim>\<open>None\<close> as \<open>None\<close>, together
  with the model directory as the call leaves it; an exception of any step before
  \<^verbatim>\<open>save_model\<close> leaves the directory as it was.
\<close>

definition train_model ::
  "model_dir \<Rightarrow> training_env \<Rightarrow> string \<Rightarrow> bool \<Rightarrow>
     py_exc + ((pipeline option \<times> label_encoder option) \<times> model_dir)" where
  "train_model md env model_type augment_data_flag =
     and_then (prepare_data env augment_data_flag)
       (\<lambda>(X, y_encoded, y_float, le, X_train, X_test, y_train, y_test).
          let results = train_multiple_models (fit_family env X_train y_train X_test y_test) in
          if results = [] then Inr ((None, None), md)
          else
            and_then (evaluate_models (classification_report env) results y_test le)
              (\<lambda>(best_model_name, best_model).
                 let xai_compatible = validate_xai_compatibility best_model in
                 and_then (generate_risk_insights X y_encoded y_float le feature_columns_10)
                   (\<lambda>printed.
                      Inr ((Some best_model, Some le),
                           save_model md best_model le best_model_name feature_columns_10))))"

section \<open>Concrete training outcomes for the examples\<close>

text \<open>
  A report function with scikit-learn's checks: the two label arrays must have the same
  length, and the number of distinct labels in them must be the number of target names.
\<close>

definition class_count_report :: report_fn where
  "class_count_report y_true y_pred target_names =
     (if length y_true \<noteq> length y_pred
      then Inl (Raised ValueError ''Found input variables with inconsistent numbers of samples'')
      else if length (remdups (y_true @ y_pred)) \<noteq> length target_names
      then Inl (Raised ValueError ''Number of classes does not match size of target_names'')
      else Inr ''classification report'')"

text \<open>
  A pipeline that reads the risk off \<^verbatim>\<open>pm25\<close>: class 0 (High) above \<open>hi\<close>, class 2
  (Moderate) above \<open>lo\<close>, else class 1 (Low).
\<close>

definition pm25_pipeline :: "real \<Rightarrow> real \<Rightarrow> pipeline" where
  "pm25_pipeline lo hi =
     \<lparr>predict = (\<lambda>x. Inr (if hi < hd x then 0 else if lo < hd x then 2 else 1)),
      predict_proba = None,
      scaler_transform = (\<lambda>x. Inr x),
      classifier_predict_proba = None,
      has_feature_importances = False\<rparr>"

text \<open>The labels of ten test rows.\<close>

definition test_labels :: "nat list" where
  "test_labels = [0, 0, 0, 2, 2, 2, 2, 1, 1, 1]"

text \<open>
  Two families, each with nine of the ten test rows right; the second has the higher
  cross-validation mean.
\<close>

definition tied_results :: results where
  "tied_results =
     [(''Random Forest'',
         \<lparr>model = pm25_pipeline 50 150, accuracy = 0.9, cv_mean = 0.8, cv_std = 0.01,
          best_params = [], predictions = [0, 0, 0, 2, 2, 2, 2, 1, 1, 2]\<rparr>),
      (''Logistic Regression'',
         \<lparr>model = pm25_pipeline 60 140, accuracy = 0.9, cv_mean = 0.85, cv_std = 0.01,
          best_params = [], predictions = [0, 0, 2, 2, 2, 2, 2, 1, 1, 1]\<rparr>)]"

text \<open>Three families; the second and third share the highest test accuracy.\<close>

definition ranked_results :: results where
  "ranked_results =
     [(''Random Forest'',
         \<lparr>model = pm25_pipeline 50 150, accuracy = 0.8, cv_mean = 0.8, cv_std = 0.01,
          best_params = [], predictions = [0, 0, 2, 2, 2, 2, 2, 1, 1, 2]\<rparr>),
      (''Logistic Regression'',
         \<lparr>model = pm25_pipeline 60 140, accuracy = 0.9, cv_mean = 0.85, cv_std = 0.01,
          best_params = [], predictions = [0, 0, 2, 2, 2, 2, 2, 1, 1, 1]\<rparr>),
      (''SVM'',
         \<lparr>model = pm25_pipeline 55 145, accuracy = 0.9, cv_mean = 0.9, cv_std = 0.01,
          best_params = [], predictions = [0, 0, 0, 2, 2, 2, 2, 1, 1, 2]\<rparr>)]"

text \<open>
  One family on a test set in which only two of the three classes occur, and which it
  predicts without error.
\<close>

definition two_class_results :: results where
  "two_class_results =
     [(''Random Forest'',
         \<lparr>model = pm25_pipeline 50 150, accuracy = 1, cv_mean = 0.8, cv_std = 0.01,
          best_params = [], predictions = [0, 0, 1, 1]\<rparr>)]"

text \<open>Every grid search raises; only the support vector machine trains.\<close>

definition all_fail :: "string \<Rightarrow> py_exc + family_result" where
  "all_fail name = Inl (Raised ValueError ''Input contains NaN'')"

definition only_svm :: "string \<Rightarrow> py_exc + family_result" where
  "only_svm name =
     (if name = ''SVM''
      then Inr \<lparr>model = pm25_pipeline 55 145, accuracy = 1, cv_mean = 0.9, cv_std = 0.01,
                best_params = [], predictions = [0, 1, 2]\<rparr>
      else Inl (Raised ValueError ''Input contains NaN''))"

text \<open>A tape of random draws: always row 0, always two and a half standard deviations up.\<close>

definition fixed_tape :: "nat \<Rightarrow> draw" where
  "fixed_tape i =
     \<lparr>randint_draw = 0,
      normal_draws =
        \<lparr>pm25 = 2.5, pm10 = 2.5, temperature = 2.5, humidity = 2.5, pollen_level = 2.5,
         wind_speed = 2.5, pressure = 2.5, patient_age = 2.5,
         patient_history_severe_attacks = 2.5, medication_adherence = 2.5\<rparr>\<rparr>"

text \<open>
  A data set of fifteen rows, five of each class, in the order High, Low, Moderate and so
  on, and a split that takes the first fifth of the rows as the test set.
\<close>

definition polluted_features :: feature_vector where
  "polluted_features =
     \<lparr>pm25 = 180, pm10 = 250, temperature = 33, humidity = 40, pollen_level = 80,
      wind_speed = 1.5, pressure = 1008, patient_age = 60,
      patient_history_severe_attacks = 4, medication_adherence = 0.4\<rparr>"

definition fifteen_rows :: "feature_vector list" where
  "fifteen_rows =
     concat (replicate 5 [polluted_features, zero_features, scenario_features])"

definition fifteen_labels :: "nat list" where
  "fifteen_labels = concat (replicate 5 [0, 1, 2])"

definition first_fifth_split ::
  "feature_vector list \<Rightarrow> nat list \<Rightarrow>
     py_exc + (feature_vector list \<times> feature_vector list \<times> nat list \<times> nat list)" where
  "first_fifth_split X y =
     (let n_test = length X div 5
      in Inr (drop n_test X, take n_test X, drop n_test y, take n_test y))"

text \<open>The training environment with that data, in which the families train as \<open>fit\<close> says.\<close>

definition fifteen_env :: "(string \<Rightarrow> py_exc + family_result) \<Rightarrow> training_env" where
  "fifteen_env fit =
     \<lparr>load_and_preprocess_data = Inr (fifteen_rows, fifteen_labels, risk_encoder),
      random_tape = fixed_tape,
      train_test_split = first_fifth_split,
      fit_family = (\<lambda>X_train y_train X_test y_test. fit),
      classification_report = class_count_report\<rparr>"

section \<open>Properties of the severity functions\<close>

lemma severity_loop_acc: "severity_loop a s = a + severity_loop 0 s"
proof (induction s arbitrary: a)
  case Nil
  then show ?case by simp
next
  case (Cons p s)
  obtain k v where p: "p = (k, v)" by (cases p)
  show ?case
  proof (cases "map_of severity_map k")
    case None
    then show ?thesis using Cons.IH [of a] by (simp add: p)
  next
    case (Some w)
    then show ?thesis using Cons.IH [of a] Cons.IH [of "a + w"] Cons.IH [of w]
      by (simp add: p)
  qed
qed

lemma map_of_severity_map:
  "map_of severity_map k =
     (if k = ''wheezing'' then Some 3
      else if k = ''shortness_of_breath'' then Some 3
      else if k = ''chest_tightness'' then Some 2
      else if k = ''coughing'' then Some 2
      else if k = ''difficulty_sleeping'' then Some 1
      else None)"
  by (simp add: severity_map_def)

lemma pws_Cons:
  assumes "k \<notin> fst ` set rest"
  shows "present_weight_sum (map_of ((k, v) # rest)) =
     (case map_of severity_map k of Some w \<Rightarrow> (if v then w else 0) | None \<Rightarrow> 0)
     + present_weight_sum (map_of rest)"
proof -
  have none: "map_of rest k = None" using assms by (simp add: map_of_eq_None_iff)
  show ?thesis
    using none by (auto simp: present_weight_sum_def map_of_severity_map)
qed

lemma severity_loop_sum:
  "distinct (map fst s) \<Longrightarrow> severity_loop 0 s = present_weight_sum (map_of s)"
proof (induction s)
  case Nil
  then show ?case by (simp add: present_weight_sum_def)
next
  case (Cons p s)
  obtain k v where p: "p = (k, v)" by (cases p)
  from Cons.prems have nk: "k \<notin> fst ` set s" and d: "distinct (map fst s)"
    by (auto simp: p)
  have step: "present_weight_sum (map_of (p # s)) =
      (case map_of severity_map k of Some w \<Rightarrow> (if v then w else 0) | None \<Rightarrow> 0)
      + severity_loop 0 s"
    unfolding p Cons.IH [OF d] by (rule pws_Cons [OF nk])
  show ?case
  proof (cases "map_of severity_map k")
    case None
    then show ?thesis unfolding step by (simp add: p)
  next
    case (Some w)
    then show ?thesis unfolding step using severity_loop_acc [of w s]
      by (simp add: p)
  qed
qed

lemma severity_loop_filter:
  "severity_loop a (filter (\<lambda>(k, v). recognized k) s) = severity_loop a s"
proof (induction s arbitrary: a)
  case Nil
  then show ?case by simp
next
  case (Cons p s)
  obtain k v where p: "p = (k, v)" by (cases p)
  have r: "recognized k \<longleftrightarrow> map_of severity_map k \<noteq> None"
    by (simp add: recognized_def map_of_eq_None_iff)
  show ?case using Cons.IH by (cases "map_of severity_map k") (simp_all add: p r)
qed

lemma view_loop_eq: "view_severity_loop a s = severity_loop a s"
proof (induction s arbitrary: a)
  case Nil
  then show ?case by simp
next
  case (Cons p s)
  obtain k v where p: "p = (k, v)" by (cases p)
  have m: "view_severity_map = severity_map"
    by (simp add: view_severity_map_def severity_map_def)
  show ?case using Cons.IH by (simp add: p m split: option.splits)
qed

lemma severity_map_nonneg: "map_of severity_map k = Some w \<Longrightarrow> 0 \<le> w"
  by (simp add: map_of_severity_map split: if_splits)

lemma severity_loop_update_mono:
  "severity_loop a s \<le> severity_loop a (AList.update k True s)"
proof (induction s arbitrary: a)
  case Nil
  then show ?case by (auto split: option.splits dest: severity_map_nonneg)
next
  case (Cons p s)
  obtain k' v where p: "p = (k', v)" by (cases p)
  show ?case
  proof (cases "k' = k")
    case True
    show ?thesis
    proof (cases "map_of severity_map k")
      case None
      then show ?thesis by (simp add: p True)
    next
      case (Some w)
      then show ?thesis
        using severity_loop_acc [of "a + w" s] severity_loop_acc [of a s] severity_map_nonneg [OF Some]
        by (simp add: p True)
    qed
  next
    case False
    then show ?thesis using Cons.IH by (simp add: p split: option.splits)
  qed
qed

text \<open>
  Claim C2. For a symptom dict (distinct keys) the collector's severity is \<^verbatim>\<open>High\<close>
  exactly when the weights of the recognised indicators that are present sum to at least 5,
  \<^verbatim>\<open>Moderate\<close> exactly when they sum to 3 or 4, and \<^verbatim>\<open>Low\<close> exactly when they sum
  to less than 3. Items whose name is not one of the five recognised ones can be dropped
  without changing the result, and the function is total, so no name raises. The two
  scenarios of the specification evaluate to \<^verbatim>\<open>High\<close> and \<^verbatim>\<open>Low\<close>.
\<close>

theorem severity_thresholds:
  assumes "distinct (map fst symptoms)"
  shows "(calculate_severity symptoms = ''High'' \<longleftrightarrow> 5 \<le> present_weight_sum (map_of symptoms))
       \<and> (calculate_severity symptoms = ''Moderate'' \<longleftrightarrow>
            present_weight_sum (map_of symptoms) = 3 \<or> present_weight_sum (map_of symptoms) = 4)
       \<and> (calculate_severity symptoms = ''Low'' \<longleftrightarrow> present_weight_sum (map_of symptoms) < 3)
       \<and> calculate_severity (filter (\<lambda>(k, v). recognized k) symptoms) = calculate_severity symptoms
       \<and> calculate_severity [(''wheezing'', True), (''shortness_of_breath'', True)] = ''High''
       \<and> calculate_severity [(''coughing'', True)] = ''Low''"
proof -
  have score: "severity_loop 0 symptoms = present_weight_sum (map_of symptoms)"
    by (rule severity_loop_sum [OF assms])
  have high: "calculate_severity symptoms = ''High'' \<longleftrightarrow> 5 \<le> present_weight_sum (map_of symptoms)"
    by (simp add: calculate_severity_def Let_def score)
  have moderate: "calculate_severity symptoms = ''Moderate'' \<longleftrightarrow>
      present_weight_sum (map_of symptoms) = 3 \<or> present_weight_sum (map_of symptoms) = 4"
    by (auto simp: calculate_severity_def Let_def score)
  have low: "calculate_severity symptoms = ''Low'' \<longleftrightarrow> present_weight_sum (map_of symptoms) < 3"
    by (auto simp: calculate_severity_def Let_def score)
  have ignored: "calculate_severity (filter (\<lambda>(k, v). recognized k) symptoms) = calculate_severity symptoms"
    by (simp add: calculate_severity_def severity_loop_filter)
  have ex1: "calculate_severity [(''wheezing'', True), (''shortness_of_breath'', True)] = ''High''"
    by (simp add: calculate_severity_def severity_map_def)
  have ex2: "calculate_severity [(''coughing'', True)] = ''Low''"
    by (simp add: calculate_severity_def severity_map_def)
  from high moderate low ignored ex1 ex2 show ?thesis by blast
qed

text \<open>A report with one recognised present indicator, one absent and one unknown name.\<close>

theorem severity_thresholds_witness:
  "distinct (map fst [(''wheezing'', True), (''coughing'', False), (''sneezing'', True)])
   \<and> calculate_severity [(''wheezing'', True), (''coughing'', False), (''sneezing'', True)] = ''Moderate''
   \<and> present_weight_sum (map_of [(''wheezing'', True), (''coughing'', False), (''sneezing'', True)]) = 3"
proof -
  have d: "distinct (map fst [(''wheezing'', True), (''coughing'', False), (''sneezing'', True)])"
    by simp
  have s: "present_weight_sum (map_of [(''wheezing'', True), (''coughing'', False), (''sneezing'', True)]) = 3"
    by (simp add: present_weight_sum_def)
  from severity_thresholds [OF d] s d show ?thesis by simp
qed

text \<open>
  Claim C7. The severity function of the symptom data collector and the one of the web view
  class return the same tier on every symptom mapping.
\<close>

theorem severity_implementations_agree:
  "view_calculate_severity symptoms = calculate_severity symptoms"
  by (simp add: view_calculate_severity_def calculate_severity_def view_loop_eq)

text \<open>
  Claim C9. Setting a recognised indicator that is absent or false to true
  (\<^verbatim>\<open>symptoms[k] = True\<close>) never lowers the tier in the order Low, Moderate, High; and equal
  inputs give equal tiers.
\<close>

theorem severity_monotone:
  assumes "recognized k" and "map_of symptoms k \<noteq> Some True"
  shows "tier_rank (calculate_severity symptoms)
           \<le> tier_rank (calculate_severity (AList.update k True symptoms))
       \<and> (symptoms' = symptoms \<longrightarrow> calculate_severity symptoms' = calculate_severity symptoms)"
proof -
  have rank: "tier_rank (calculate_severity s) =
      (if 5 \<le> severity_loop 0 s then 2 else if 3 \<le> severity_loop 0 s then 1 else 0)" for s
    by (simp add: calculate_severity_def tier_rank_def)
  have "severity_loop 0 symptoms \<le> severity_loop 0 (AList.update k True symptoms)"
    by (rule severity_loop_update_mono)
  then have "tier_rank (calculate_severity symptoms)
           \<le> tier_rank (calculate_severity (AList.update k True symptoms))"
    unfolding rank by simp
  then show ?thesis by simp
qed

text \<open>Turning on wheezing in a report that only has coughing lifts Low to High.\<close>

theorem severity_monotone_witness:
  "recognized ''wheezing''
   \<and> map_of [(''coughing'', True), (''wheezing'', False)] ''wheezing'' \<noteq> Some True
   \<and> calculate_severity [(''coughing'', True), (''wheezing'', False)] = ''Low''
   \<and> calculate_severity (AList.update ''wheezing'' True [(''coughing'', True), (''wheezing'', False)]) = ''High''
   \<and> tier_rank ''Low'' \<le> tier_rank ''High''"
proof -
  have r: "recognized ''wheezing''" by (simp add: recognized_def severity_map_def)
  have a: "map_of [(''coughing'', True), (''wheezing'', False)] ''wheezing'' \<noteq> Some True" by simp
  have lo: "calculate_severity [(''coughing'', True), (''wheezing'', False)] = ''Low''"
    by (simp add: calculate_severity_def severity_map_def)
  have hi: "calculate_severity (AList.update ''wheezing'' True [(''coughing'', True), (''wheezing'', False)]) = ''High''"
    by (simp add: calculate_severity_def severity_map_def)
  from severity_monotone [OF r a] r a lo hi show ?thesis by simp
qed

section \<open>Properties of \<^verbatim>\<open>load_model\<close>\<close>

lemma model_filename_examples:
  "model_filename ''best'' = ''best_model.pkl''"
  "model_filename ''Random Forest'' = ''random_forest_model.pkl''"
  "model_filename ''SVM'' = ''svm_model.pkl''"
  by (simp_all add: model_filename_def lower_def lower_char_def replace_space_def)

lemma load_model_try_class:
  "load_model_try md (Str name) = Inl e \<Longrightarrow> exc_class_of e = FileNotFoundError"
  by (auto simp: Let_def no_such_file_def split: option.splits if_splits)

text \<open>
  Claim C8, as the code has it. When the file of the named model is absent,
  \<^verbatim>\<open>load_model\<close> falls back to \<^verbatim>\<open>random_forest_model.pkl\<close>; it then fails exactly when
  that file, the label encoder file or the feature column file is absent, and otherwise
  returns the three together. When the file of the named model is present, it fails exactly
  when the label encoder file or the feature column file is absent, and otherwise returns the
  three together. Every failure is a \<^verbatim>\<open>FileNotFoundError\<close>.
\<close>

theorem load_model_fallback:
  "(model_files md (model_filename name) = None \<longrightarrow>
      (isl (load_model md (Str name)) \<longleftrightarrow>
         model_files md ''random_forest_model.pkl'' = None
         \<or> label_encoder_pkl md = None \<or> feature_columns_pkl md = None)
      \<and> (\<forall>m le fc. model_files md ''random_forest_model.pkl'' = Some m
            \<and> label_encoder_pkl md = Some le \<and> feature_columns_pkl md = Some fc
            \<longrightarrow> load_model md (Str name) = Inr (m, le, fc)))
   \<and> (\<forall>m. model_files md (model_filename name) = Some m \<longrightarrow>
      (isl (load_model md (Str name)) \<longleftrightarrow>
         label_encoder_pkl md = None \<or> feature_columns_pkl md = None)
      \<and> (\<forall>le fc. label_encoder_pkl md = Some le \<and> feature_columns_pkl md = Some fc
            \<longrightarrow> load_model md (Str name) = Inr (m, le, fc)))
   \<and> (isl (load_model md (Str name)) \<longrightarrow>
        raised_class (load_model md (Str name)) = Some FileNotFoundError)"
proof -
  have absent: "model_files md (model_filename name) = None \<Longrightarrow>
      (isl (load_model md (Str name)) \<longleftrightarrow>
         model_files md ''random_forest_model.pkl'' = None
         \<or> label_encoder_pkl md = None \<or> feature_columns_pkl md = None)
      \<and> (\<forall>m le fc. model_files md ''random_forest_model.pkl'' = Some m
            \<and> label_encoder_pkl md = Some le \<and> feature_columns_pkl md = Some fc
            \<longrightarrow> load_model md (Str name) = Inr (m, le, fc))"
    by (auto simp: load_model_def no_such_file_def Let_def split: option.splits if_splits)
  have present: "model_files md (model_filename name) = Some m \<Longrightarrow>
      (isl (load_model md (Str name)) \<longleftrightarrow>
         label_encoder_pkl md = None \<or> feature_columns_pkl md = None)
      \<and> (\<forall>le fc. label_encoder_pkl md = Some le \<and> feature_columns_pkl md = Some fc
            \<longrightarrow> load_model md (Str name) = Inr (m, le, fc))" for m
    by (auto simp: load_model_def no_such_file_def Let_def split: option.splits if_splits)
  have cls: "isl (load_model md (Str name)) \<Longrightarrow>
        raised_class (load_model md (Str name)) = Some FileNotFoundError"
    by (auto simp: load_model_def no_such_file_def Let_def split: option.splits if_splits)
  from absent present cls show ?thesis by blast
qed

text \<open>
  A directory with only the random forest saved: \<^verbatim>\<open>best\<close> falls back to it,
  \<^verbatim>\<open>Random Forest\<close> names it; an empty directory fails.
\<close>

theorem load_model_fallback_witness:
  "model_files trained_dir (model_filename ''best'') = None
   \<and> load_model trained_dir (Str ''best'') = Inr (constant_pipeline 1, risk_encoder, feature_columns_10)
   \<and> model_files trained_dir (model_filename ''Random Forest'') = Some (constant_pipeline 1)
   \<and> load_model trained_dir (Str ''Random Forest'') = Inr (constant_pipeline 1, risk_encoder, feature_columns_10)
   \<and> isl (load_model empty_dir (Str ''best''))
   \<and> raised_class (load_model empty_dir (Str ''best'')) = Some FileNotFoundError"
proof -
  have a: "model_files trained_dir (model_filename ''best'') = None"
    by (simp add: trained_dir_def model_filename_examples)
  have b: "model_files trained_dir (model_filename ''Random Forest'') = Some (constant_pipeline 1)"
    by (simp add: trained_dir_def model_filename_examples)
  have c: "model_files trained_dir ''random_forest_model.pkl'' = Some (constant_pipeline 1)
      \<and> label_encoder_pkl trained_dir = Some risk_encoder
      \<and> feature_columns_pkl trained_dir = Some feature_columns_10"
    by (simp add: trained_dir_def)
  have d: "model_files empty_dir (model_filename ''best'') = None
      \<and> model_files empty_dir ''random_forest_model.pkl'' = None"
    by (simp add: empty_dir_def)
  from load_model_fallback [of trained_dir "''best''"]
       load_model_fallback [of trained_dir "''Random Forest''"]
       load_model_fallback [of empty_dir "''best''"] a b c d
  show ?thesis by simp
qed

text \<open>
  Claim C8 as stated fails: the named model file exists, the label encoder file does not,
  and the load raises instead of returning the three artifacts.
\<close>

theorem load_model_named_present_counterexample:
  "model_files model_only_dir (model_filename ''SVM'') = Some (constant_pipeline 0)
   \<and> load_model model_only_dir (Str ''SVM'') =
       Inl (Raised FileNotFoundError
         ''Model files not found. Please train the model first using train_model.py. Error: [Errno 2] No such file or directory: label_encoder.pkl'')"
  by (simp add: model_only_dir_def model_filename_examples load_model_def no_such_file_def)

section \<open>Properties of model selection\<close>

lemma hd_insort_key:
  "hd (insort_key f x ys) = (if ys = [] \<or> f x \<le> f (hd ys) then x else hd ys)"
  by (cases ys) auto

lemma sort_key_Nil_iff: "sort_key f xs = [] \<longleftrightarrow> xs = []"
  by (metis length_sort list.size(3) length_0_conv)

lemma hd_sort_key_first_least:
  "xs \<noteq> [] \<Longrightarrow>
   \<exists>i<length xs. hd (sort_key f xs) = xs ! i
      \<and> (\<forall>j<length xs. f (xs ! i) \<le> f (xs ! j))
      \<and> (\<forall>j<i. f (xs ! i) < f (xs ! j))"
proof (induction xs)
  case Nil
  then show ?case by simp
next
  case (Cons x xs)
  show ?case
  proof (cases "xs = []")
    case True
    then show ?thesis by simp
  next
    case False
    from Cons.IH [OF False] obtain i where i: "i < length xs"
      and h: "hd (sort_key f xs) = xs ! i"
      and le: "\<forall>j<length xs. f (xs ! i) \<le> f (xs ! j)"
      and lt: "\<forall>j<i. f (xs ! i) < f (xs ! j)" by blast
    have ne: "sort_key f xs \<noteq> []" using False by (simp add: sort_key_Nil_iff)
    show ?thesis
    proof (cases "f x \<le> f (xs ! i)")
      case True
      have "hd (sort_key f (x # xs)) = (x # xs) ! 0"
        using True h ne by (simp add: hd_insort_key)
      moreover have "\<forall>j<length (x # xs). f ((x # xs) ! 0) \<le> f ((x # xs) ! j)"
      proof (intro allI impI)
        fix j assume "j < length (x # xs)"
        then show "f ((x # xs) ! 0) \<le> f ((x # xs) ! j)"
          using True le by (cases j) (auto intro: order_trans)
      qed
      ultimately show ?thesis by (intro exI [of _ 0]) simp
    next
      case False
      then have less: "f (xs ! i) < f x" by simp
      have "hd (sort_key f (x # xs)) = (x # xs) ! Suc i"
        using False h ne by (simp add: hd_insort_key)
      moreover have "\<forall>j<length (x # xs). f ((x # xs) ! Suc i) \<le> f ((x # xs) ! j)"
      proof (intro allI impI)
        fix j assume "j < length (x # xs)"
        then show "f ((x # xs) ! Suc i) \<le> f ((x # xs) ! j)"
          using less le by (cases j) auto
      qed
      moreover have "\<forall>j<Suc i. f ((x # xs) ! Suc i) < f ((x # xs) ! j)"
      proof (intro allI impI)
        fix j assume "j < Suc i"
        then show "f ((x # xs) ! Suc i) < f ((x # xs) ! j)"
          using less lt by (cases j) auto
      qed
      ultimately show ?thesis using i by (intro exI [of _ "Suc i"]) simp
    qed
  qed
qed

lemma map_of_distinct_nth:
  "distinct (map fst xs) \<Longrightarrow> i < length xs \<Longrightarrow> map_of xs (fst (xs ! i)) = Some (snd (xs ! i))"
  by (metis map_of_is_SomeI nth_mem prod.collapse)

lemma report_loop_ok_iff:
  "report_loop report xs y_test le = Inr () \<longleftrightarrow>
     list_all (\<lambda>x. \<not> isl (report y_test (predictions (snd x)) (classes le))) xs"
proof (induction xs)
  case Nil
  then show ?case by simp
next
  case (Cons p xs)
  obtain name result where p: "p = (name, result)" by (cases p)
  show ?case using Cons.IH
    by (cases "report y_test (predictions result) (classes le)") (simp_all add: p)
qed

lemma report_loop_sorted_iff:
  "report_loop report (sorted_models results) y_test le = Inr () \<longleftrightarrow>
     list_all (\<lambda>x. \<not> isl (report y_test (predictions (snd x)) (classes le))) results"
  by (simp add: report_loop_ok_iff sorted_models_def list_all_iff)

lemma report_loop_cases:
  "(\<exists>e. report_loop report xs y_test le = Inl e) \<or> report_loop report xs y_test le = Inr ()"
  by (cases "report_loop report xs y_test le") auto

lemma update_fresh_append:
  "k \<notin> fst ` set al \<Longrightarrow> AList.update k v al = al @ [(k, v)]"
  by (induction al) auto

lemma train_loop_keys:
  "distinct names \<Longrightarrow> set names \<inter> fst ` set acc = {} \<Longrightarrow>
   map fst (train_loop fit names acc) = map fst acc @ filter (\<lambda>name. \<not> isl (fit name)) names"
proof (induction names arbitrary: acc)
  case Nil
  then show ?case by simp
next
  case (Cons name rest)
  from Cons.prems have fresh: "name \<notin> fst ` set acc" and d: "distinct rest"
    and nr: "name \<notin> set rest" and disj: "set rest \<inter> fst ` set acc = {}" by auto
  show ?case
  proof (cases "fit name")
    case (Inl e)
    then show ?thesis using Cons.IH [OF d disj] by simp
  next
    case (Inr entry)
    have disj': "set rest \<inter> fst ` set (acc @ [(name, entry)]) = {}"
      using disj nr by auto
    show ?thesis
      using Cons.IH [OF d disj'] Inr by (simp add: update_fresh_append [OF fresh])
  qed
qed

lemma train_multiple_models_keys:
  "map fst (train_multiple_models fit) = filter (\<lambda>name. \<not> isl (fit name)) model_names"
proof -
  have d: "distinct model_names" by (simp add: model_names_def)
  show ?thesis
    using train_loop_keys [OF d, of "[]" fit] by (simp add: train_multiple_models_def)
qed

text \<open>
  Claim C1, as the code has it. The keys of the results dict are the families that trained,
  in the training order Random Forest, Logistic Regression, Gradient Boosting, SVM. On a
  non-empty results dict, when the classification report of no family raises,
  \<^verbatim>\<open>evaluate_models\<close> returns the name and model of a family whose test accuracy no
  other family exceeds; among families of equal highest accuracy it returns the one that
  comes first in the dict. The cross-validation mean is not consulted. When the
  classification report of some family raises, \<^verbatim>\<open>evaluate_models\<close> raises and selects
  nothing.
\<close>

theorem evaluate_models_first_highest_accuracy:
  assumes "results \<noteq> []" and "distinct (map fst results)"
  shows "(list_all (\<lambda>x. \<not> isl (report y_test (predictions (snd x)) (classes le))) results \<longrightarrow>
            (\<exists>i<length results.
                evaluate_models report results y_test le
                  = Inr (fst (results ! i), model (snd (results ! i)))
              \<and> (\<forall>j<length results. accuracy (snd (results ! j)) \<le> accuracy (snd (results ! i)))
              \<and> (\<forall>j<i. accuracy (snd (results ! j)) < accuracy (snd (results ! i)))))
       \<and> (\<not> list_all (\<lambda>x. \<not> isl (report y_test (predictions (snd x)) (classes le))) results \<longrightarrow>
            isl (evaluate_models report results y_test le))
       \<and> map fst (train_multiple_models fit) = filter (\<lambda>name. \<not> isl (fit name)) model_names"
proof -
  let ?ok = "list_all (\<lambda>x. \<not> isl (report y_test (predictions (snd x)) (classes le))) results"
  from hd_sort_key_first_least [OF assms(1), of "\<lambda>x. - accuracy (snd x)"]
  obtain i where i: "i < length results"
    and h: "hd (sorted_models results) = results ! i"
    and le: "\<forall>j<length results. accuracy (snd (results ! j)) \<le> accuracy (snd (results ! i))"
    and lt: "\<forall>j<i. accuracy (snd (results ! j)) < accuracy (snd (results ! i))"
    by (auto simp: sorted_models_def)
  have ne: "sorted_models results \<noteq> []"
    using assms(1) by (simp add: sorted_models_def sort_key_Nil_iff)
  then obtain others where s: "sorted_models results = (results ! i) # others"
    using h by (cases "sorted_models results") auto
  have sel: "evaluate_models report results y_test le
      = Inr (fst (results ! i), model (snd (results ! i)))" if ok: ?ok
  proof -
    have "report_loop report (sorted_models results) y_test le = Inr ()"
      using ok by (simp add: report_loop_sorted_iff)
    then show ?thesis
      using s by (simp add: evaluate_models_def Let_def map_of_distinct_nth [OF assms(2) i])
  qed
  have raise: "isl (evaluate_models report results y_test le)" if bad: "\<not> ?ok"
  proof -
    have "report_loop report (sorted_models results) y_test le \<noteq> Inr ()"
      using bad by (simp add: report_loop_sorted_iff)
    then obtain e where "report_loop report (sorted_models results) y_test le = Inl e"
      using report_loop_cases by blast
    then show ?thesis by (simp add: evaluate_models_def Let_def)
  qed
  from sel raise i le lt train_multiple_models_keys [of fit] show ?thesis by blast
qed

text \<open>
  Of two families with the highest accuracy the earlier one, logistic regression, wins.
  On a test set with two of the three classes the report raises. When only the support
  vector machine trains, it is the only key.
\<close>

theorem evaluate_models_first_highest_accuracy_witness:
  "ranked_results \<noteq> [] \<and> distinct (map fst ranked_results)
   \<and> evaluate_models class_count_report ranked_results test_labels risk_encoder
       = Inr (''Logistic Regression'', pm25_pipeline 60 140)
   \<and> raised_class (evaluate_models class_count_report two_class_results [0, 0, 1, 1] risk_encoder)
       = Some ValueError
   \<and> map fst (train_multiple_models only_svm) = [''SVM'']"
proof -
  have n: "ranked_results \<noteq> []" by (simp add: ranked_results_def)
  have d: "distinct (map fst ranked_results)" by (simp add: ranked_results_def)
  have e: "evaluate_models class_count_report ranked_results test_labels risk_encoder
       = Inr (''Logistic Regression'', pm25_pipeline 60 140)"
    by (simp add: evaluate_models_def sorted_models_def ranked_results_def class_count_report_def
        test_labels_def risk_encoder_def)
  have n2: "two_class_results \<noteq> []" by (simp add: two_class_results_def)
  have d2: "distinct (map fst two_class_results)" by (simp add: two_class_results_def)
  have r: "raised_class (evaluate_models class_count_report two_class_results [0, 0, 1, 1] risk_encoder)
       = Some ValueError"
    by (simp add: evaluate_models_def sorted_models_def two_class_results_def
        class_count_report_def risk_encoder_def)
  have k: "filter (\<lambda>name. \<not> isl (only_svm name)) model_names = [''SVM'']"
    by (simp add: model_names_def only_svm_def)
  from evaluate_models_first_highest_accuracy [OF n d, of class_count_report test_labels risk_encoder only_svm]
       evaluate_models_first_highest_accuracy [OF n2 d2, of class_count_report "[0, 0, 1, 1]" risk_encoder only_svm]
       n d e r k
  show ?thesis by simp
qed

text \<open>
  Claim C1 as stated fails: with equal test accuracy the random forest is selected although
  logistic regression has the higher cross-validation mean.
\<close>

theorem evaluate_models_tie_counterexample:
  "evaluate_models class_count_report tied_results test_labels risk_encoder
     = Inr (''Random Forest'', pm25_pipeline 50 150)
   \<and> map (\<lambda>x. (fst x, accuracy (snd x), cv_mean (snd x))) tied_results
       = [(''Random Forest'', 0.9, 0.8), (''Logistic Regression'', 0.9, 0.85)]"
  by (simp add: evaluate_models_def sorted_models_def tied_results_def class_count_report_def
      test_labels_def risk_encoder_def)

section \<open>Properties of data augmentation\<close>

lemma ensure_bounds_in_bounds: "in_bounds (ensure_bounds fv)"
  by (simp add: in_bounds_def ensure_bounds_def)

lemma synthetic_row_in_bounds: "in_bounds (fst (synthetic_row df d))"
  by (simp add: synthetic_row_def Let_def ensure_bounds_in_bounds)

text \<open>
  Claim C5, as the code has it. For a feature table with one label per row that is not
  empty (or with no rows asked for), and for every tape of random draws, augmentation
  returns the original rows followed by \<open>n\<close> synthetic ones, and every synthetic row has
  \<^verbatim>\<open>pm25\<close> and \<^verbatim>\<open>pm10\<close> at least 0, \<^verbatim>\<open>humidity\<close> between 0 and 100 and
  \<^verbatim>\<open>medication_adherence\<close> between 0 and 1.
\<close>

theorem augment_data_rows_and_bounds:
  assumes "length y = length X" and "n = 0 \<or> X \<noteq> []"
  shows "\<exists>X_combined y_combined.
           augment_data X y n rnd = Inr (X_combined, y_combined)
         \<and> length X_combined = length X + n
         \<and> length y_combined = length X + n
         \<and> take (length X) X_combined = X
         \<and> take (length X) y_combined = y
         \<and> list_all in_bounds (drop (length X) X_combined)"
proof -
  let ?df = "zip X y"
  let ?aug = "map (\<lambda>i. synthetic_row ?df (rnd i)) [0..<n]"
  have ok: "\<not> (0 < n \<and> ?df = [])"
    using assms by (cases X; cases y) auto
  have r: "augment_data X y n rnd = Inr (map fst (?df @ ?aug), map snd (?df @ ?aug))"
    using assms(1) ok by (simp add: augment_data_def Let_def)
  have fstdf: "map fst ?df = X" using assms(1) by simp
  have snddf: "map snd ?df = y" using assms(1) by simp
  have b: "list_all in_bounds (map fst ?aug)"
    by (simp add: list_all_iff synthetic_row_in_bounds)
  have "length (map fst (?df @ ?aug)) = length X + n" using assms(1) by simp
  moreover have "length (map snd (?df @ ?aug)) = length X + n" using assms(1) by simp
  moreover have "take (length X) (map fst (?df @ ?aug)) = X" using fstdf by simp
  moreover have "take (length X) (map snd (?df @ ?aug)) = y" using snddf assms(1) by simp
  moreover have "list_all in_bounds (drop (length X) (map fst (?df @ ?aug)))"
    using b fstdf by simp
  ultimately show ?thesis using r by blast
qed

text \<open>
  Two rows, three synthetic ones drawn from the first with large upward noise: humidity
  56 becomes 70, medication adherence 0.8 is cut off at 1.
\<close>

theorem augment_data_rows_and_bounds_witness:
  "length [1::nat, 0] = length [scenario_features, zero_features]
   \<and> [scenario_features, zero_features] \<noteq> []
   \<and> (case augment_data [scenario_features, zero_features] [1, 0] 3 fixed_tape of
         Inl e \<Rightarrow> False
       | Inr (X_combined, y_combined) \<Rightarrow>
           length X_combined = 5 \<and> y_combined = [1, 0, 1, 1, 1]
           \<and> take 2 X_combined = [scenario_features, zero_features]
           \<and> list_all in_bounds (drop 2 X_combined)
           \<and> humidity (X_combined ! 2) = 70
           \<and> medication_adherence (X_combined ! 2) = 1)"
proof -
  let ?row = "fst (synthetic_row [(scenario_features, 1), (zero_features, 0)] (fixed_tape 0))"
  have l: "length [1::nat, 0] = length [scenario_features, zero_features]" by simp
  have n: "(3::nat) = 0 \<or> [scenario_features, zero_features] \<noteq> []" by simp
  have up: "[0..<3] = [0, 1, 2]" by (simp add: upt_rec)
  have v: "augment_data [scenario_features, zero_features] [1, 0] 3 fixed_tape
      = Inr ([scenario_features, zero_features, ?row, ?row, ?row], [1, 0, 1, 1, 1])"
    by (simp add: augment_data_def Let_def up fixed_tape_def synthetic_row_def)
  have h: "humidity ?row = 70"
    by (simp add: synthetic_row_def fixed_tape_def scenario_features_def ensure_bounds_def
        perturb_def add_noise_def noise_factor_def)
  have m: "medication_adherence ?row = 1"
    by (simp add: synthetic_row_def fixed_tape_def scenario_features_def ensure_bounds_def
        perturb_def add_noise_def noise_factor_def)
  have b: "in_bounds ?row" by (rule synthetic_row_in_bounds)
  from augment_data_rows_and_bounds [OF l n, of fixed_tape] h m b
  show ?thesis unfolding v by simp
qed

text \<open>
  Claim C5 as stated fails on the empty table: there is no row to draw, and
  \<^verbatim>\<open>np.random.randint(0, 0)\<close> raises.
\<close>

theorem augment_data_empty_table_counterexample:
  "augment_data [] [] 1 fixed_tape = Inl (Raised ValueError ''low >= high'')"
  by (simp add: augment_data_def)

section \<open>Properties of the explanation entry point\<close>

lemma explain_lime_ignores_shap:
  "fst (explain_lime lib (self\<lparr>explainer_shap := s\<rparr>) features) = fst (explain_lime lib self features)"
  by (simp add: explain_lime_def explain_lime_try_def initialize_lime_def Let_def
      split: sum.splits option.splits)

lemma explain_shap_state:
  "\<exists>s. snd (explain_shap lib self features) = self\<lparr>explainer_shap := s\<rparr>"
proof -
  have init: "\<exists>s. snd (initialize_shap lib self) = self\<lparr>explainer_shap := s\<rparr>"
  proof (cases "fst (initialize_shap lib self)")
    case True
    then show ?thesis
      by (auto simp: initialize_shap_def split: sum.splits if_splits option.splits)
  next
    case False
    then have "snd (initialize_shap lib self) = self\<lparr>explainer_shap := explainer_shap self\<rparr>"
      by (auto simp: initialize_shap_def split: sum.splits if_splits option.splits)
    then show ?thesis by blast
  qed
  have same: "self = self\<lparr>explainer_shap := explainer_shap self\<rparr>" by simp
  show ?thesis
  proof (cases "explainer_shap self = None")
    case True
    then show ?thesis using init
      by (auto simp: explain_shap_def Let_def split: sum.splits)
  next
    case False
    then have "snd (explain_shap lib self features) = self"
      by (auto simp: explain_shap_def Let_def split: sum.splits)
    then show ?thesis using same by metis
  qed
qed

lemma and_then_Inr_iff: "and_then x f = Inr v \<longleftrightarrow> (\<exists>a. x = Inr a \<and> f a = Inr v)"
  by (cases x) auto

lemma and_then_Inl_iff:
  "and_then x f = Inl e \<longleftrightarrow> x = Inl e \<or> (\<exists>a. x = Inr a \<and> f a = Inl e)"
  by (cases x) auto

lemma explain_shap_try_payload:
  "explain_shap_try self features = Inr p \<Longrightarrow> \<exists>fi sv. p = ShapPayload fi sv"
  unfolding explain_shap_try_def and_then_Inr_iff by blast

lemma explain_lime_try_payload:
  "explain_lime_try self features = Inr p \<Longrightarrow> \<exists>c fw ex. p = LimePayload c fw ex"
  unfolding explain_lime_try_def and_then_Inr_iff by blast

lemma explain_shap_payload:
  "(\<exists>msg. fst (explain_shap lib self features) = ErrorPayload msg ''SHAP'')
   \<or> (\<exists>fi sv. fst (explain_shap lib self features) = ShapPayload fi sv)"
proof -
  let ?self1 = "if explainer_shap self = None then snd (initialize_shap lib self) else self"
  show ?thesis
  proof (cases "explain_shap_try ?self1 features")
    case (Inl e)
    then show ?thesis by (simp add: explain_shap_def Let_def)
  next
    case (Inr p)
    from explain_shap_try_payload [OF Inr] Inr show ?thesis
      by (auto simp: explain_shap_def Let_def)
  qed
qed

lemma explain_lime_payload:
  "(\<exists>msg. fst (explain_lime lib self features) = ErrorPayload msg ''LIME'')
   \<or> (\<exists>c fw ex. fst (explain_lime lib self features) = LimePayload c fw ex)"
proof -
  let ?self1 = "if explainer_lime self = None then snd (initialize_lime lib self) else self"
  show ?thesis
  proof (cases "explain_lime_try ?self1 features")
    case (Inl e)
    then show ?thesis by (simp add: explain_lime_def Let_def)
  next
    case (Inr p)
    from explain_lime_try_payload [OF Inr] Inr show ?thesis
      by (auto simp: explain_lime_def Let_def)
  qed
qed

lemma get_xai_both:
  assumes "XAIExplainer_init md (Str ''best'') = Inr ex"
  shows "get_xai_explanation lib md fv ''both'' =
     [(''shap'', Slot (fst (explain_shap lib ex (features_list fv)))),
      (''lime'', Slot (fst (explain_lime lib ex (features_list fv))))]"
proof -
  obtain s where s: "snd (explain_shap lib ex (features_list fv)) = ex\<lparr>explainer_shap := s\<rparr>"
    using explain_shap_state by blast
  show ?thesis
    using assms s explain_lime_ignores_shap [where lib = lib and self = ex and s = s and features = "features_list fv"]
    by (simp add: get_xai_explanation_def Let_def split_beta)
qed


lemma get_xai_init_failed:
  assumes "XAIExplainer_init md (Str ''best'') = Inl e"
  shows "get_xai_explanation lib md fv method =
     [(''error'', Message (''XAI explanation failed: '' @ exc_str e))]"
  using assms by (simp add: get_xai_explanation_def)

lemma get_xai_other_method:
  assumes "XAIExplainer_init md (Str ''best'') = Inr ex"
    and "method \<noteq> ''shap''" and "method \<noteq> ''lime''" and "method \<noteq> ''both''"
  shows "get_xai_explanation lib md fv method = []"
  using assms by (simp add: get_xai_explanation_def)

text \<open>
  Claim C4, as the code has it. \<^verbatim>\<open>get_xai_explanation\<close> returns a dict and raises nothing.
  When the constructor \<^verbatim>\<open>XAIExplainer()\<close> succeeds, the result for method
  \<^verbatim>\<open>both\<close> has exactly the slots \<^verbatim>\<open>shap\<close> and \<^verbatim>\<open>lime\<close>; each holds what its own
  method returns on the freshly constructed explainer, an attribution payload or a payload
  with the \<^verbatim>\<open>error\<close> key, so neither method's failure (also a failure to initialise its
  own explainer) changes the other's slot. When the constructor fails, because the model
  artifacts cannot be loaded, the result has the single key \<^verbatim>\<open>error\<close> and neither slot.
\<close>

theorem get_xai_explanation_both:
  "(\<forall>ex. XAIExplainer_init md (Str ''best'') = Inr ex \<longrightarrow>
      get_xai_explanation lib md fv ''both'' =
        [(''shap'', Slot (fst (explain_shap lib ex (features_list fv)))),
         (''lime'', Slot (fst (explain_lime lib ex (features_list fv))))]
      \<and> ((\<exists>msg. fst (explain_shap lib ex (features_list fv)) = ErrorPayload msg ''SHAP'')
           \<or> (\<exists>fi sv. fst (explain_shap lib ex (features_list fv)) = ShapPayload fi sv))
      \<and> ((\<exists>msg. fst (explain_lime lib ex (features_list fv)) = ErrorPayload msg ''LIME'')
           \<or> (\<exists>c fw expl. fst (explain_lime lib ex (features_list fv)) = LimePayload c fw expl)))
   \<and> (\<forall>e. XAIExplainer_init md (Str ''best'') = Inl e \<longrightarrow>
      get_xai_explanation lib md fv ''both'' =
        [(''error'', Message (''XAI explanation failed: '' @ exc_str e))])"
  using get_xai_both [of md _ lib fv] get_xai_init_failed [of md _ lib fv "''both''"]
    explain_shap_payload [of lib _ "features_list fv"]
    explain_lime_payload [of lib _ "features_list fv"]
  by blast

text \<open>
  Claim C10, as the code has it. For a method other than \<^verbatim>\<open>shap\<close>, \<^verbatim>\<open>lime\<close> and
  \<^verbatim>\<open>both\<close> the result is the empty dict when the constructor \<^verbatim>\<open>XAIExplainer()\<close>
  succeeds, and the dict with the single key \<^verbatim>\<open>error\<close> when it fails; in both cases there
  is no \<^verbatim>\<open>shap\<close> and no \<^verbatim>\<open>lime\<close> slot.
\<close>

theorem get_xai_explanation_other_method:
  assumes "method \<noteq> ''shap''" and "method \<noteq> ''lime''" and "method \<noteq> ''both''"
  shows "(\<forall>ex. XAIExplainer_init md (Str ''best'') = Inr ex \<longrightarrow>
            get_xai_explanation lib md fv method = [])
       \<and> (\<forall>e. XAIExplainer_init md (Str ''best'') = Inl e \<longrightarrow>
            get_xai_explanation lib md fv method =
              [(''error'', Message (''XAI explanation failed: '' @ exc_str e))])
       \<and> \<not> has_key (get_xai_explanation lib md fv method) ''shap''
       \<and> \<not> has_key (get_xai_explanation lib md fv method) ''lime''"
proof -
  have a: "\<forall>ex. XAIExplainer_init md (Str ''best'') = Inr ex \<longrightarrow>
            get_xai_explanation lib md fv method = []"
    using get_xai_other_method [OF _ assms] by blast
  have b: "\<forall>e. XAIExplainer_init md (Str ''best'') = Inl e \<longrightarrow>
            get_xai_explanation lib md fv method =
              [(''error'', Message (''XAI explanation failed: '' @ exc_str e))]"
    using get_xai_init_failed by blast
  have c: "\<not> has_key (get_xai_explanation lib md fv method) ''shap''
       \<and> \<not> has_key (get_xai_explanation lib md fv method) ''lime''"
  proof (cases "XAIExplainer_init md (Str ''best'')")
    case (Inl e)
    with b show ?thesis by (simp add: has_key_def)
  next
    case (Inr ex)
    with a show ?thesis by (simp add: has_key_def)
  qed
  from a b c show ?thesis by blast
qed

lemma model_filename_best: "model_filename ''best'' = ''best_model.pkl''"
  by (simp add: model_filename_def lower_def lower_char_def replace_space_def)

lemma init_trained:
  "XAIExplainer_init trained_dir (Str ''best'') =
     Inr \<lparr>self_model = constant_pipeline 1, self_label_encoder = risk_encoder,
          self_feature_columns = feature_columns_10, self_model_type = Str ''best'',
          explainer_shap = None, explainer_lime = None\<rparr>"
  by (simp add: XAIExplainer_init_def load_model_def trained_dir_def model_filename_best)

lemma init_empty:
  "XAIExplainer_init empty_dir (Str ''best'') =
     Inl (Raised FileNotFoundError
       ''Model files not found. Please train the model first using train_model.py. Error: [Errno 2] No such file or directory: random_forest_model.pkl'')"
  by (simp add: XAIExplainer_init_def load_model_def empty_dir_def no_such_file_def)

text \<open>
  With a saved model and packages of which only LIME works, the SHAP slot carries an error
  and the LIME slot an attribution; with no saved model there is only the error text.
\<close>

theorem get_xai_explanation_both_witness:
  "get_xai_explanation lime_only_library trained_dir scenario_features ''both'' =
     [(''shap'', Slot (ErrorPayload
         ''SHAP explanation failed: NoneType object has no attribute shap_values'' ''SHAP'')),
      (''lime'', Slot (LimePayload ''Low'' [(''pm25 > 50.00'', 0.3)] [(''pm25 > 50.00'', 0.3)]))]
   \<and> get_xai_explanation lime_only_library empty_dir scenario_features ''both'' =
     [(''error'', Message
        ''XAI explanation failed: Model files not found. Please train the model first using train_model.py. Error: [Errno 2] No such file or directory: random_forest_model.pkl'')]"
proof -
  let ?ex = "\<lparr>self_model = constant_pipeline 1, self_label_encoder = risk_encoder,
          self_feature_columns = feature_columns_10, self_model_type = Str ''best'',
          explainer_shap = None, explainer_lime = None\<rparr>"
  have s: "fst (explain_shap lime_only_library ?ex (features_list scenario_features)) =
      ErrorPayload ''SHAP explanation failed: NoneType object has no attribute shap_values'' ''SHAP''"
    by (simp add: explain_shap_def explain_shap_try_def initialize_shap_def lime_only_library_def
        constant_pipeline_def Let_def)
  have l: "fst (explain_lime lime_only_library ?ex (features_list scenario_features)) =
      LimePayload ''Low'' [(''pm25 > 50.00'', 0.3)] [(''pm25 > 50.00'', 0.3)]"
    by (simp add: explain_lime_def explain_lime_try_def initialize_lime_def lime_only_library_def
        constant_pipeline_def risk_encoder_def inverse_transform_def dict_of_def Let_def)
  from get_xai_explanation_both [of trained_dir lime_only_library scenario_features]
       get_xai_explanation_both [of empty_dir lime_only_library scenario_features]
       init_trained init_empty s l
  show ?thesis by simp
qed

text \<open>
  Claim C4 as stated fails: before any model is saved, the result for method \<^verbatim>\<open>both\<close>
  has neither a \<^verbatim>\<open>shap\<close> nor a \<^verbatim>\<open>lime\<close> slot.
\<close>

theorem get_xai_explanation_both_counterexample:
  "get_xai_explanation lime_only_library empty_dir scenario_features ''both'' =
     [(''error'', Message
        ''XAI explanation failed: Model files not found. Please train the model first using train_model.py. Error: [Errno 2] No such file or directory: random_forest_model.pkl'')]
   \<and> \<not> has_key (get_xai_explanation lime_only_library empty_dir scenario_features ''both'') ''shap''
   \<and> \<not> has_key (get_xai_explanation lime_only_library empty_dir scenario_features ''both'') ''lime''"
  by (simp add: get_xai_init_failed [OF init_empty] has_key_def)

text \<open>The method names of the specification give the empty dict once a model is saved.\<close>

theorem get_xai_explanation_other_method_witness:
  "''additive'' \<noteq> ''shap'' \<and> ''additive'' \<noteq> ''lime'' \<and> ''additive'' \<noteq> ''both''
   \<and> get_xai_explanation failing_library trained_dir scenario_features ''additive'' = []
   \<and> get_xai_explanation failing_library trained_dir scenario_features ''surrogate'' = []"
proof -
  have a: "''additive'' \<noteq> ''shap''" "''additive'' \<noteq> ''lime''" "''additive'' \<noteq> ''both''"
    by simp_all
  have b: "''surrogate'' \<noteq> ''shap''" "''surrogate'' \<noteq> ''lime''" "''surrogate'' \<noteq> ''both''"
    by simp_all
  from get_xai_explanation_other_method [OF a, of trained_dir failing_library scenario_features]
       get_xai_explanation_other_method [OF b, of trained_dir failing_library scenario_features]
       init_trained
  show ?thesis by simp
qed

text \<open>
  Claim C10 as stated fails: before any model is saved, the result for method
  \<^verbatim>\<open>additive\<close> is not empty, it has the \<^verbatim>\<open>error\<close> key.
\<close>

theorem get_xai_explanation_other_method_counterexample:
  "get_xai_explanation failing_library empty_dir scenario_features ''additive'' =
     [(''error'', Message
        ''XAI explanation failed: Model files not found. Please train the model first using train_model.py. Error: [Errno 2] No such file or directory: random_forest_model.pkl'')]
   \<and> has_key (get_xai_explanation failing_library empty_dir scenario_features ''additive'') ''error''"
  by (simp add: get_xai_init_failed [OF init_empty] has_key_def)

section \<open>Properties of training\<close>

lemma train_loop_map_of:
  "map_of (train_loop fit names acc) n =
     (if n \<in> set names
      then (case fit n of Inl e \<Rightarrow> map_of acc n | Inr entry \<Rightarrow> Some entry)
      else map_of acc n)"
proof (induction names arbitrary: acc)
  case Nil
  then show ?case by simp
next
  case (Cons name rest)
  show ?case
  proof (cases "fit name")
    case (Inl e)
    then show ?thesis using Cons.IH [of acc] by auto
  next
    case (Inr entry)
    then show ?thesis using Cons.IH [of "AList.update name entry acc"]
      by (auto simp: update_conv' split: sum.splits)
  qed
qed

lemma train_loop_distinct:
  "distinct (map fst acc) \<Longrightarrow> distinct (map fst (train_loop fit names acc))"
proof (induction names arbitrary: acc)
  case Nil
  then show ?case by simp
next
  case (Cons name rest)
  then show ?case by (cases "fit name") (simp_all add: distinct_update)
qed

lemma train_multiple_models_map_of:
  "map_of (train_multiple_models fit) n =
     (if n \<in> set model_names
      then (case fit n of Inl e \<Rightarrow> None | Inr entry \<Rightarrow> Some entry)
      else None)"
  by (auto simp: train_multiple_models_def train_loop_map_of split: sum.splits)

lemma train_multiple_models_distinct: "distinct (map fst (train_multiple_models fit))"
  by (simp add: train_multiple_models_def train_loop_distinct)

lemma map_of_empty_iff: "(\<forall>n. map_of xs n = None) \<longleftrightarrow> xs = []"
  by (cases xs) (auto simp: fun_eq_iff split: if_splits)

lemma train_multiple_models_empty_iff:
  "train_multiple_models fit = [] \<longleftrightarrow> (\<forall>name \<in> set model_names. isl (fit name))"
proof -
  have one: "map_of (train_multiple_models fit) n = None
      \<longleftrightarrow> (n \<in> set model_names \<longrightarrow> isl (fit n))" for n
    by (cases "fit n") (simp_all add: train_multiple_models_map_of)
  have "train_multiple_models fit = [] \<longleftrightarrow> (\<forall>n. map_of (train_multiple_models fit) n = None)"
    by (simp add: map_of_empty_iff)
  then show ?thesis unfolding one by blast
qed

lemma evaluate_models_member:
  assumes "results \<noteq> []" and "distinct (map fst results)"
    and "list_all (\<lambda>x. \<not> isl (report y_test (predictions (snd x)) (classes le))) results"
  shows "\<exists>name entry. (name, entry) \<in> set results
           \<and> evaluate_models report results y_test le = Inr (name, model entry)"
proof -
  have ne: "sorted_models results \<noteq> []"
    using assms(1) by (simp add: sorted_models_def sort_key_Nil_iff)
  then obtain first others where s: "sorted_models results = first # others"
    by (cases "sorted_models results") auto
  have "first \<in> set (sorted_models results)" by (simp add: s)
  then have mem: "first \<in> set results" by (simp add: sorted_models_def)
  then have m: "map_of results (fst first) = Some (snd first)"
    using assms(2) by (metis map_of_is_SomeI prod.collapse)
  have "report_loop report (sorted_models results) y_test le = Inr ()"
    using assms(3) by (simp add: report_loop_sorted_iff)
  then have "evaluate_models report results y_test le = Inr (fst first, model (snd first))"
    using s m by (simp add: evaluate_models_def Let_def)
  with mem show ?thesis by (metis prod.collapse)
qed

lemma augment_data_labels_nonempty:
  assumes "augment_data X0 y0 (Suc n) rnd = Inr (X, y)"
  shows "y \<noteq> []"
proof -
  have "zip X0 y0 \<noteq> []"
    using assms by (auto simp: augment_data_def Let_def split: if_splits)
  then show ?thesis
    using assms by (auto simp: augment_data_def Let_def split: if_splits)
qed

lemma augment_data_succeeds:
  assumes "length y0 = length X0" and "X0 \<noteq> []"
  shows "\<exists>X y. augment_data X0 y0 n rnd = Inr (X, y)"
proof -
  have "zip X0 y0 \<noteq> []" using assms by (cases X0; cases y0) auto
  then show ?thesis using assms(1) by (simp add: augment_data_def Let_def)
qed

lemma thousand_Suc: "(1000::nat) = Suc 999"
  by simp

lemma prepare_data_augmented:
  assumes "prepare_data env True = Inr (X, y, yf, le, Xtr, Xte, ytr, yte)"
  shows "yf \<and> y \<noteq> []"
proof (cases "load_and_preprocess_data env")
  case (Inl e)
  then show ?thesis using assms by (simp add: prepare_data_def)
next
  case (Inr loaded)
  obtain X0 y0 le0 where l: "loaded = (X0, y0, le0)" by (cases loaded)
  show ?thesis
  proof (cases "augment_data X0 y0 1000 (random_tape env)")
    case (Inl e)
    then show ?thesis using assms Inr l by (simp add: prepare_data_def)
  next
    case aug: (Inr augmented)
    obtain X1 y1 where a: "augmented = (X1, y1)" by (cases augmented)
    have y1: "y1 \<noteq> []"
      using aug unfolding a thousand_Suc by (rule augment_data_labels_nonempty)
    show ?thesis
    proof (cases "train_test_split env X1 y1")
      case (Inl e)
      then show ?thesis using assms Inr l aug a by (simp add: prepare_data_def)
    next
      case sp: (Inr parts)
      obtain p1 p2 p3 p4 where p: "parts = (p1, p2, p3, p4)" by (cases parts)
      show ?thesis using assms Inr l aug a sp p y1 by (simp add: prepare_data_def)
    qed
  qed
qed

lemma prepare_data_plain:
  assumes "prepare_data env False = Inr (X, y, yf, le, Xtr, Xte, ytr, yte)"
  shows "\<not> yf"
proof (cases "load_and_preprocess_data env")
  case (Inl e)
  then show ?thesis using assms by (simp add: prepare_data_def)
next
  case (Inr loaded)
  obtain X0 y0 le0 where l: "loaded = (X0, y0, le0)" by (cases loaded)
  show ?thesis
  proof (cases "train_test_split env X0 y0")
    case (Inl e)
    then show ?thesis using assms Inr l by (simp add: prepare_data_def)
  next
    case sp: (Inr parts)
    obtain p1 p2 p3 p4 where p: "parts = (p1, p2, p3, p4)" by (cases parts)
    show ?thesis using assms Inr l sp p by (simp add: prepare_data_def)
  qed
qed

lemma generate_risk_insights_float:
  "y \<noteq> [] \<Longrightarrow> isl (generate_risk_insights X y True le feature_columns)"
  by (simp add: generate_risk_insights_def inverse_transform_all_def)

lemma generate_risk_insights_int:
  "list_all (\<lambda>label. label < length (classes le)) y \<Longrightarrow> length y = length X \<Longrightarrow>
   generate_risk_insights X y False le feature_columns = Inr ()"
  by (auto simp: generate_risk_insights_def inverse_transform_all_def list_all_iff list_ex_iff)

lemma train_model_unfold:
  assumes "prepare_data env flag = Inr (X, y, yf, le, Xtr, Xte, ytr, yte)"
  shows "train_model md env model_type flag =
     (let results = train_multiple_models (fit_family env Xtr ytr Xte yte) in
      if results = [] then Inr ((None, None), md)
      else
        and_then (evaluate_models (classification_report env) results yte le)
          (\<lambda>(best_model_name, best_model).
             and_then (generate_risk_insights X y yf le feature_columns_10)
               (\<lambda>printed.
                  Inr ((Some best_model, Some le),
                       save_model md best_model le best_model_name feature_columns_10))))"
  using assms by (simp add: train_model_def Let_def)

lemma train_model_prepare_failed:
  "prepare_data env flag = Inl e \<Longrightarrow> train_model md env model_type flag = Inl e"
  by (simp add: train_model_def)

lemma train_model_all_fail:
  assumes "prepare_data env flag = Inr (X, y, yf, le, Xtr, Xte, ytr, yte)"
    and "\<forall>name \<in> set model_names. isl (fit_family env Xtr ytr Xte yte name)"
  shows "train_model md env model_type flag = Inr ((None, None), md)"
proof -
  have "train_multiple_models (fit_family env Xtr ytr Xte yte) = []"
    using assms(2) by (simp add: train_multiple_models_empty_iff)
  then show ?thesis by (simp add: train_model_unfold [OF assms(1)])
qed

lemma train_model_augmented_raises:
  assumes "prepare_data env True = Inr (X, y, yf, le, Xtr, Xte, ytr, yte)"
    and "\<exists>name \<in> set model_names. \<not> isl (fit_family env Xtr ytr Xte yte name)"
  shows "isl (train_model md env model_type True)"
proof -
  let ?results = "train_multiple_models (fit_family env Xtr ytr Xte yte)"
  have ne: "?results \<noteq> []" using assms(2) by (simp add: train_multiple_models_empty_iff)
  from prepare_data_augmented [OF assms(1)] have yf: "yf" and y: "y \<noteq> []" by simp_all
  have ins: "isl (generate_risk_insights X y yf le feature_columns_10)"
    using yf generate_risk_insights_float [OF y] by simp
  show ?thesis
  proof (cases "evaluate_models (classification_report env) ?results yte le")
    case (Inl e)
    then show ?thesis using ne by (simp add: train_model_unfold [OF assms(1)])
  next
    case (Inr best)
    obtain e where "generate_risk_insights X y yf le feature_columns_10 = Inl e"
      using ins by (cases "generate_risk_insights X y yf le feature_columns_10") auto
    then show ?thesis using ne Inr
      by (cases best) (simp add: train_model_unfold [OF assms(1)])
  qed
qed

lemma train_model_plain_saves:
  assumes "prepare_data env False = Inr (X, y, yf, le, Xtr, Xte, ytr, yte)"
    and "\<exists>name \<in> set model_names. \<not> isl (fit_family env Xtr ytr Xte yte name)"
    and "list_all (\<lambda>x. \<not> isl (classification_report env yte (predictions (snd x)) (classes le)))
           (train_multiple_models (fit_family env Xtr ytr Xte yte))"
    and "list_all (\<lambda>label. label < length (classes le)) y" and "length y = length X"
  shows "\<exists>name entry. name \<in> set model_names
           \<and> fit_family env Xtr ytr Xte yte name = Inr entry
           \<and> train_model md env model_type False =
               Inr ((Some (model entry), Some le),
                    save_model md (model entry) le name feature_columns_10)"
proof -
  let ?fit = "fit_family env Xtr ytr Xte yte"
  let ?results = "train_multiple_models ?fit"
  have ne: "?results \<noteq> []" using assms(2) by (simp add: train_multiple_models_empty_iff)
  have dist: "distinct (map fst ?results)" by (rule train_multiple_models_distinct)
  have "\<exists>name entry. (name, entry) \<in> set ?results
      \<and> evaluate_models (classification_report env) ?results yte le = Inr (name, model entry)"
    using ne dist assms(3) by (rule evaluate_models_member)
  then obtain name entry where mem: "(name, entry) \<in> set ?results"
    and ev: "evaluate_models (classification_report env) ?results yte le = Inr (name, model entry)"
    by blast
  from mem have "map_of ?results name = Some entry"
    using train_multiple_models_distinct by (metis map_of_is_SomeI)
  then have fit: "name \<in> set model_names \<and> ?fit name = Inr entry"
    by (auto simp: train_multiple_models_map_of split: sum.splits if_splits)
  have yf: "\<not> yf" by (rule prepare_data_plain [OF assms(1)])
  have ins: "generate_risk_insights X y yf le feature_columns_10 = Inr ()"
    using yf generate_risk_insights_int [OF assms(4,5)] by simp
  have "train_model md env model_type False =
      Inr ((Some (model entry), Some le), save_model md (model entry) le name feature_columns_10)"
    using ne ev ins by (simp add: train_model_unfold [OF assms(1)])
  with fit show ?thesis by blast
qed

text \<open>
  Claim C6, as the code has it. A family whose grid search raises gets no entry in the
  results, and every other candidate family keeps the entry it produced, so training goes
  on with the remaining families. An exception while the data is loaded, augmented or split
  ends \<^verbatim>\<open>train_model\<close>. When the data is prepared and every candidate family fails,
  \<^verbatim>\<open>train_model\<close> raises nothing: it returns \<^verbatim>\<open>(None, None)\<close> and leaves the model
  directory as it was. When at least one family trains: with augmentation on,
  \<^verbatim>\<open>train_model\<close> raises before anything is saved, because the augmented labels are
  floats and \<^verbatim>\<open>generate_risk_insights\<close> cannot decode them; with augmentation off, when
  no classification report raises and the labels are those of the encoder, one per row, it
  returns the model of one of the trained families with the label encoder, and saves them.
\<close>

theorem train_failure_semantics:
  "(\<forall>name e. fit name = Inl e \<longrightarrow> \<not> has_key (train_multiple_models fit) name)
   \<and> (\<forall>name entry. name \<in> set model_names \<and> fit name = Inr entry \<longrightarrow>
         map_of (train_multiple_models fit) name = Some entry)
   \<and> (\<forall>e. prepare_data env flag = Inl e \<longrightarrow> train_model md env model_type flag = Inl e)
   \<and> (\<forall>X y yf le Xtr Xte ytr yte.
         prepare_data env flag = Inr (X, y, yf, le, Xtr, Xte, ytr, yte)
         \<and> (\<forall>name \<in> set model_names. isl (fit_family env Xtr ytr Xte yte name))
         \<longrightarrow> train_model md env model_type flag = Inr ((None, None), md))
   \<and> (\<forall>X y yf le Xtr Xte ytr yte.
         prepare_data env True = Inr (X, y, yf, le, Xtr, Xte, ytr, yte)
         \<and> (\<exists>name \<in> set model_names. \<not> isl (fit_family env Xtr ytr Xte yte name))
         \<longrightarrow> isl (train_model md env model_type True))
   \<and> (\<forall>X y yf le Xtr Xte ytr yte.
         prepare_data env False = Inr (X, y, yf, le, Xtr, Xte, ytr, yte)
         \<and> (\<exists>name \<in> set model_names. \<not> isl (fit_family env Xtr ytr Xte yte name))
         \<and> list_all (\<lambda>x. \<not> isl (classification_report env yte (predictions (snd x)) (classes le)))
             (train_multiple_models (fit_family env Xtr ytr Xte yte))
         \<and> list_all (\<lambda>label. label < length (classes le)) y \<and> length y = length X
         \<longrightarrow> (\<exists>name entry. name \<in> set model_names
                 \<and> fit_family env Xtr ytr Xte yte name = Inr entry
                 \<and> train_model md env model_type False =
                     Inr ((Some (model entry), Some le),
                          save_model md (model entry) le name feature_columns_10)))"
proof -
  have excluded: "\<forall>name e. fit name = Inl e \<longrightarrow> \<not> has_key (train_multiple_models fit) name"
    by (auto simp: has_key_def train_multiple_models_map_of)
  have kept: "\<forall>name entry. name \<in> set model_names \<and> fit name = Inr entry \<longrightarrow>
         map_of (train_multiple_models fit) name = Some entry"
    by (simp add: train_multiple_models_map_of)
  have failed: "\<forall>e. prepare_data env flag = Inl e \<longrightarrow> train_model md env model_type flag = Inl e"
    using train_model_prepare_failed by blast
  have none: "\<forall>X y yf le Xtr Xte ytr yte.
         prepare_data env flag = Inr (X, y, yf, le, Xtr, Xte, ytr, yte)
         \<and> (\<forall>name \<in> set model_names. isl (fit_family env Xtr ytr Xte yte name))
         \<longrightarrow> train_model md env model_type flag = Inr ((None, None), md)"
    using train_model_all_fail by blast
  have aug: "\<forall>X y yf le Xtr Xte ytr yte.
         prepare_data env True = Inr (X, y, yf, le, Xtr, Xte, ytr, yte)
         \<and> (\<exists>name \<in> set model_names. \<not> isl (fit_family env Xtr ytr Xte yte name))
         \<longrightarrow> isl (train_model md env model_type True)"
    using train_model_augmented_raises by blast
  have plain: "\<forall>X y yf le Xtr Xte ytr yte.
         prepare_data env False = Inr (X, y, yf, le, Xtr, Xte, ytr, yte)
         \<and> (\<exists>name \<in> set model_names. \<not> isl (fit_family env Xtr ytr Xte yte name))
         \<and> list_all (\<lambda>x. \<not> isl (classification_report env yte (predictions (snd x)) (classes le)))
             (train_multiple_models (fit_family env Xtr ytr Xte yte))
         \<and> list_all (\<lambda>label. label < length (classes le)) y \<and> length y = length X
         \<longrightarrow> (\<exists>name entry. name \<in> set model_names
                 \<and> fit_family env Xtr ytr Xte yte name = Inr entry
                 \<and> train_model md env model_type False =
                     Inr ((Some (model entry), Some le),
                          save_model md (model entry) le name feature_columns_10))"
    using train_model_plain_saves by blast
  from excluded kept failed none aug plain show ?thesis by blast
qed

lemma fifteen_rows_list:
  "fifteen_rows =
     [polluted_features, zero_features, scenario_features,
      polluted_features, zero_features, scenario_features,
      polluted_features, zero_features, scenario_features,
      polluted_features, zero_features, scenario_features,
      polluted_features, zero_features, scenario_features]"
  by (simp add: fifteen_rows_def eval_nat_numeral)

lemma fifteen_labels_list:
  "fifteen_labels = [0, 1, 2, 0, 1, 2, 0, 1, 2, 0, 1, 2, 0, 1, 2]"
  by (simp add: fifteen_labels_def eval_nat_numeral)

lemma fifteen_length: "length fifteen_labels = length fifteen_rows \<and> fifteen_rows \<noteq> []"
  by (simp add: fifteen_labels_list fifteen_rows_list)

lemma prepare_fifteen_plain:
  "prepare_data (fifteen_env fit) False =
     Inr (fifteen_rows, fifteen_labels, False, risk_encoder,
          drop 3 fifteen_rows, [polluted_features, zero_features, scenario_features],
          drop 3 fifteen_labels, [0, 1, 2])"
  by (simp add: prepare_data_def fifteen_env_def first_fifth_split_def Let_def
      fifteen_rows_list fifteen_labels_list)

lemma prepare_fifteen_augmented:
  "\<exists>X y Xtr Xte ytr yte.
     prepare_data (fifteen_env fit) True = Inr (X, y, True, risk_encoder, Xtr, Xte, ytr, yte)"
proof -
  from augment_data_succeeds [of fifteen_labels fifteen_rows 1000 fixed_tape] fifteen_length
  obtain X y where a: "augment_data fifteen_rows fifteen_labels 1000 fixed_tape = Inr (X, y)"
    by auto
  show ?thesis
    by (simp add: prepare_data_def fifteen_env_def first_fifth_split_def Let_def a)
qed

lemma only_svm_results:
  "train_multiple_models only_svm =
     [(''SVM'', \<lparr>model = pm25_pipeline 55 145, accuracy = 1, cv_mean = 0.9, cv_std = 0.01,
                best_params = [], predictions = [0, 1, 2]\<rparr>)]"
  by (simp add: train_multiple_models_def model_names_def only_svm_def)

text \<open>
  Only the support vector machine trains: without augmentation it is selected and saved,
  with augmentation the call raises. No family trains: the pair of \<^verbatim>\<open>None\<close> comes
  back, with or without augmentation.
\<close>

theorem train_failure_semantics_witness:
  "only_svm ''Random Forest'' = Inl (Raised ValueError ''Input contains NaN'')
   \<and> \<not> has_key (train_multiple_models only_svm) ''Random Forest''
   \<and> has_key (train_multiple_models only_svm) ''SVM''
   \<and> train_model empty_dir (fifteen_env only_svm) ''best'' False =
       Inr ((Some (pm25_pipeline 55 145), Some risk_encoder),
            save_model empty_dir (pm25_pipeline 55 145) risk_encoder ''SVM'' feature_columns_10)
   \<and> isl (train_model empty_dir (fifteen_env only_svm) ''best'' True)
   \<and> train_model empty_dir (fifteen_env all_fail) ''best'' False = Inr ((None, None), empty_dir)
   \<and> train_model empty_dir (fifteen_env all_fail) ''best'' True = Inr ((None, None), empty_dir)"
proof -
  have a: "only_svm ''Random Forest'' = Inl (Raised ValueError ''Input contains NaN'')"
    by (simp add: only_svm_def)
  have b: "has_key (train_multiple_models only_svm) ''SVM''"
    by (simp add: only_svm_results has_key_def)
  have fit_svm: "fit_family (fifteen_env only_svm) Xtr ytr Xte yte = only_svm" for Xtr ytr Xte yte
    by (simp add: fifteen_env_def)
  have fit_none: "fit_family (fifteen_env all_fail) Xtr ytr Xte yte = all_fail" for Xtr ytr Xte yte
    by (simp add: fifteen_env_def)
  have rep: "classification_report (fifteen_env only_svm) = class_count_report"
    by (simp add: fifteen_env_def)
  have some: "\<exists>name \<in> set model_names. \<not> isl (only_svm name)"
    by (simp add: model_names_def only_svm_def)
  have none: "\<forall>name \<in> set model_names. isl (all_fail name)"
    by (simp add: all_fail_def)
  have c: "train_model empty_dir (fifteen_env only_svm) ''best'' False =
       Inr ((Some (pm25_pipeline 55 145), Some risk_encoder),
            save_model empty_dir (pm25_pipeline 55 145) risk_encoder ''SVM'' feature_columns_10)"
    unfolding train_model_unfold [OF prepare_fifteen_plain] fit_svm rep only_svm_results
    by (simp add: evaluate_models_def sorted_models_def class_count_report_def
        risk_encoder_def generate_risk_insights_def inverse_transform_all_def
        fifteen_labels_list fifteen_rows_list)
  from prepare_fifteen_augmented [of only_svm] obtain X y Xtr Xte ytr yte where
    p1: "prepare_data (fifteen_env only_svm) True = Inr (X, y, True, risk_encoder, Xtr, Xte, ytr, yte)"
    by blast
  from prepare_fifteen_augmented [of all_fail] obtain X' y' Xtr' Xte' ytr' yte' where
    p2: "prepare_data (fifteen_env all_fail) True
           = Inr (X', y', True, risk_encoder, Xtr', Xte', ytr', yte')"
    by blast
  have d: "isl (train_model empty_dir (fifteen_env only_svm) ''best'' True)"
    using train_failure_semantics [of only_svm "fifteen_env only_svm" True empty_dir "''best''"]
      p1 some fit_svm by metis
  have e: "train_model empty_dir (fifteen_env all_fail) ''best'' False = Inr ((None, None), empty_dir)"
    using train_failure_semantics [of all_fail "fifteen_env all_fail" False empty_dir "''best''"]
      prepare_fifteen_plain [of all_fail] none fit_none by metis
  have f: "train_model empty_dir (fifteen_env all_fail) ''best'' True = Inr ((None, None), empty_dir)"
    using train_failure_semantics [of all_fail "fifteen_env all_fail" True empty_dir "''best''"]
      p2 none fit_none by metis
  from train_failure_semantics [of only_svm "fifteen_env only_svm" False empty_dir "''best''"]
    a b c d e f
  show ?thesis by simp
qed

text \<open>
  Claim C6 as stated fails: with every grid search raising, \<^verbatim>\<open>train_model\<close> completes
  with an absent model, and the directory still holds the model saved before.
\<close>

theorem train_model_all_fail_counterexample:
  "train_multiple_models all_fail = []
   \<and> train_model trained_dir (fifteen_env all_fail) ''best'' True = Inr ((None, None), trained_dir)
   \<and> train_model trained_dir (fifteen_env all_fail) ''best'' False = Inr ((None, None), trained_dir)"
proof -
  have fit_none: "fit_family (fifteen_env all_fail) Xtr ytr Xte yte = all_fail" for Xtr ytr Xte yte
    by (simp add: fifteen_env_def)
  have none: "\<forall>name \<in> set model_names. isl (fit_family (fifteen_env all_fail) Xtr ytr Xte yte name)"
    for Xtr ytr Xte yte
    by (simp add: fit_none all_fail_def)
  have r: "train_multiple_models all_fail = []"
    by (simp add: train_multiple_models_def model_names_def all_fail_def)
  from prepare_fifteen_augmented [of all_fail] obtain X y Xtr Xte ytr yte where
    p: "prepare_data (fifteen_env all_fail) True = Inr (X, y, True, risk_encoder, Xtr, Xte, ytr, yte)"
    by blast
  have t: "train_model trained_dir (fifteen_env all_fail) ''best'' True = Inr ((None, None), trained_dir)"
    by (rule train_model_all_fail [OF p none])
  have u: "train_model trained_dir (fifteen_env all_fail) ''best'' False = Inr ((None, None), trained_dir)"
    by (rule train_model_all_fail [OF prepare_fifteen_plain none])
  from r t u show ?thesis by simp
qed

section \<open>Properties of prediction\<close>

lemma load_model_ignores_columns:
  "map_sum id (\<lambda>(m, le, fc). (m, le)) (load_model (md\<lparr>feature_columns_pkl := Some fc\<rparr>) model_type)
   = map_sum id (\<lambda>(m, le, fc). (m, le)) (load_model (md\<lparr>feature_columns_pkl := Some fc'\<rparr>) model_type)"
  by (cases model_type)
     (auto simp: load_model_def Let_def no_such_file_def split: option.splits)

lemma map_sum_and_then:
  "map_sum id g (and_then x f) = and_then x (\<lambda>a. map_sum id g (f a))"
  by (cases x) simp_all

lemma predict_try_ignores_feature_columns:
  "map_sum id (\<lambda>r. (risk_level r, confidence r, probabilities r))
     (predict_asthma_risk_try lib (md\<lparr>feature_columns_pkl := Some fc\<rparr>) fv model_type include_xai)
   = map_sum id (\<lambda>r. (risk_level r, confidence r, probabilities r))
     (predict_asthma_risk_try lib (md\<lparr>feature_columns_pkl := Some fc'\<rparr>) fv model_type include_xai)"
proof -
  let ?md = "md\<lparr>feature_columns_pkl := Some fc\<rparr>"
  let ?md' = "md\<lparr>feature_columns_pkl := Some fc'\<rparr>"
  show ?thesis
  proof (cases "load_model ?md model_type")
    case (Inl e)
    then have "load_model ?md' model_type = Inl e"
      using load_model_ignores_columns [where md = md and fc = fc and model_type = model_type and fc' = fc']
      by (cases "load_model ?md' model_type") auto
    with Inl show ?thesis by (simp add: predict_asthma_risk_try_def)
  next
    case (Inr loaded)
    obtain m le c where l: "loaded = (m, le, c)" by (cases loaded)
    from Inr l obtain c' where l': "load_model ?md' model_type = Inr (m, le, c')"
      using load_model_ignores_columns [where md = md and fc = fc and model_type = model_type and fc' = fc']
      by (cases "load_model ?md' model_type") auto
    show ?thesis
      unfolding predict_asthma_risk_try_def Inr l l'
      by (cases include_xai) (simp_all add: map_sum_and_then Let_def)
  qed
qed

lemma predict_ignores_feature_columns:
  "map_sum id (\<lambda>r. (risk_level r, confidence r, probabilities r))
     (predict_asthma_risk lib (md\<lparr>feature_columns_pkl := Some fc\<rparr>) fv model_type include_xai)
   = map_sum id (\<lambda>r. (risk_level r, confidence r, probabilities r))
     (predict_asthma_risk lib (md\<lparr>feature_columns_pkl := Some fc'\<rparr>) fv model_type include_xai)"
proof -
  have wrap: "map_sum id g (predict_asthma_risk lib d fv model_type include_xai) =
      (case map_sum id g (predict_asthma_risk_try lib d fv model_type include_xai) of
         Inl e \<Rightarrow> Inl (Raised Exception (''Error during prediction: '' @ exc_str e))
       | Inr t \<Rightarrow> Inr t)" for g :: "prediction_result \<Rightarrow> string \<times> real option \<times> (string \<times> real) list option" and d
    by (cases "predict_asthma_risk_try lib d fv model_type include_xai")
       (simp_all add: predict_asthma_risk_def)
  show ?thesis
    unfolding wrap
    using predict_try_ignores_feature_columns [where lib = lib and md = md and fc = fc
        and fv = fv and model_type = model_type and include_xai = include_xai and fc' = fc']
    by simp
qed

lemma predict_asthma_risk_class:
  "raised_class (predict_asthma_risk lib md fv model_type include_xai) = None
   \<or> raised_class (predict_asthma_risk lib md fv model_type include_xai) = Some Exception"
  by (cases "predict_asthma_risk_try lib md fv model_type include_xai")
     (simp_all add: predict_asthma_risk_def)

lemma predict_asthma_risk_Num:
  "predict_asthma_risk lib md fv (Num x) include_xai =
     Inl (Raised Exception ''Error during prediction: float object has no attribute lower'')"
  by (simp add: predict_asthma_risk_def predict_asthma_risk_try_def load_model_def)

text \<open>
  Claim C3, as the code has it. A call of \<^verbatim>\<open>predict_asthma_risk\<close> with a vector of
  numbers whose length is not 10 always fails and never returns a prediction: with fewer
  than 10 or more than 12 values by Python's \<^verbatim>\<open>TypeError\<close> for the argument count, with
  11 or 12 values by the generic \<^verbatim>\<open>Exception\<close> in which the body wraps every failure
  (here that of \<^verbatim>\<open>model_type.lower()\<close> on a number). Whatever the arguments, the only
  class of exception the body of \<^verbatim>\<open>predict_asthma_risk\<close> raises is \<^verbatim>\<open>Exception\<close>.
  The loaded feature columns are never compared with the input: whichever column list is
  persisted, the call fails or succeeds alike, with the same error or the same risk level,
  confidence and probabilities.
\<close>

theorem predict_wrong_arity:
  assumes "length args \<noteq> 10"
  shows "isl (call_predict_asthma_risk lib md args)
       \<and> (length args < 10 \<or> 12 < length args \<longrightarrow>
            raised_class (call_predict_asthma_risk lib md args) = Some TypeError)
       \<and> (length args = 11 \<or> length args = 12 \<longrightarrow>
            call_predict_asthma_risk lib md args =
              Inl (Raised Exception
                ''Error during prediction: float object has no attribute lower''))
       \<and> (raised_class (predict_asthma_risk lib md fv model_type include_xai) = None
            \<or> raised_class (predict_asthma_risk lib md fv model_type include_xai)
                 = Some Exception)
       \<and> map_sum id (\<lambda>r. (risk_level r, confidence r, probabilities r))
            (predict_asthma_risk lib (md\<lparr>feature_columns_pkl := Some fc\<rparr>) fv model_type include_xai)
          = map_sum id (\<lambda>r. (risk_level r, confidence r, probabilities r))
            (predict_asthma_risk lib (md\<lparr>feature_columns_pkl := Some fc'\<rparr>) fv model_type include_xai)"
proof -
  have few: "length args < 10 \<Longrightarrow>
      raised_class (call_predict_asthma_risk lib md args) = Some TypeError"
    by (simp add: call_predict_asthma_risk_def)
  have many: "12 < length args \<Longrightarrow>
      raised_class (call_predict_asthma_risk lib md args) = Some TypeError"
    by (simp add: call_predict_asthma_risk_def)
  have mid: "length args = 11 \<or> length args = 12 \<Longrightarrow>
      call_predict_asthma_risk lib md args =
        Inl (Raised Exception ''Error during prediction: float object has no attribute lower'')"
    by (auto simp: call_predict_asthma_risk_def predict_asthma_risk_Num)
  have cases: "length args < 10 \<or> 12 < length args \<or> length args = 11 \<or> length args = 12"
    using assms by arith
  have fails: "isl (call_predict_asthma_risk lib md args)"
  proof -
    from cases consider "length args < 10" | "12 < length args"
      | "length args = 11 \<or> length args = 12" by blast
    then show ?thesis
    proof cases
      case 1
      then show ?thesis by (simp add: call_predict_asthma_risk_def)
    next
      case 2
      then show ?thesis by (simp add: call_predict_asthma_risk_def)
    next
      case 3
      then show ?thesis using mid by simp
    qed
  qed
  have cols: "map_sum id (\<lambda>r. (risk_level r, confidence r, probabilities r))
            (predict_asthma_risk lib (md\<lparr>feature_columns_pkl := Some fc\<rparr>) fv model_type include_xai)
          = map_sum id (\<lambda>r. (risk_level r, confidence r, probabilities r))
            (predict_asthma_risk lib (md\<lparr>feature_columns_pkl := Some fc'\<rparr>) fv model_type include_xai)"
    by (rule predict_ignores_feature_columns)
  from few many mid fails cols predict_asthma_risk_class [of lib md fv model_type include_xai]
  show ?thesis by blast
qed

text \<open>
  A vector of three values and one of eleven; and ten values against a directory whose
  persisted column list has a single name, which predicts all the same.
\<close>

theorem predict_wrong_arity_witness:
  "length [92, 135, 31 :: real] \<noteq> 10
   \<and> raised_class (call_predict_asthma_risk failing_library trained_dir [92, 135, 31]) = Some TypeError
   \<and> length [92, 135, 31, 56, 50, 3.2, 1013, 35, 2, 0.8, 7 :: real] \<noteq> 10
   \<and> raised_class (call_predict_asthma_risk failing_library trained_dir
         [92, 135, 31, 56, 50, 3.2, 1013, 35, 2, 0.8, 7]) = Some Exception
   \<and> call_predict_asthma_risk failing_library (trained_dir\<lparr>feature_columns_pkl := Some [''pm25'']\<rparr>)
         [92, 135, 31, 56, 50, 3.2, 1013, 35, 2, 0.8] =
       Inr \<lparr>risk_level = ''Low'', confidence = None, probabilities = None,
            xai_explanations = None\<rparr>"
proof -
  have a: "length [92, 135, 31 :: real] \<noteq> 10" by simp
  have b: "length [92, 135, 31, 56, 50, 3.2, 1013, 35, 2, 0.8, 7 :: real] \<noteq> 10" by simp
  have c: "call_predict_asthma_risk failing_library (trained_dir\<lparr>feature_columns_pkl := Some [''pm25'']\<rparr>)
         [92, 135, 31, 56, 50, 3.2, 1013, 35, 2, 0.8] =
       Inr \<lparr>risk_level = ''Low'', confidence = None, probabilities = None,
            xai_explanations = None\<rparr>"
    by (simp add: call_predict_asthma_risk_def predict_asthma_risk_def predict_asthma_risk_try_def
        load_model_def trained_dir_def model_filename_best constant_pipeline_def
        inverse_transform_def risk_encoder_def Let_def)
  from predict_wrong_arity [OF a, of failing_library trained_dir]
       predict_wrong_arity [OF b, of failing_library trained_dir] c
  show ?thesis by simp
qed

text \<open>
  Claim C3 as stated fails: the failures for a wrong length are a \<^verbatim>\<open>TypeError\<close> and a
  generic \<^verbatim>\<open>Exception\<close>; the source has no error class for a feature mismatch.
\<close>

theorem predict_wrong_arity_counterexample:
  "call_predict_asthma_risk failing_library trained_dir [92, 135, 31] =
     Inl (Raised TypeError ''predict_asthma_risk() missing required positional arguments'')
   \<and> call_predict_asthma_risk failing_library trained_dir
        [92, 135, 31, 56, 50, 3.2, 1013, 35, 2, 0.8, 7] =
     Inl (Raised Exception ''Error during prediction: float object has no attribute lower'')"
  by (simp add: call_predict_asthma_risk_def predict_asthma_risk_Num)

text \<open>With ten values and a saved model the call returns a prediction.\<close>

lemma predict_ten_values:
  "call_predict_asthma_risk failing_library trained_dir
        [92, 135, 31, 56, 50, 3.2, 1013, 35, 2, 0.8] =
     Inr \<lparr>risk_level = ''Low'', confidence = None, probabilities = None,
          xai_explanations = None\<rparr>"
  by (simp add: call_predict_asthma_risk_def predict_asthma_risk_def predict_asthma_risk_try_def
      load_model_def trained_dir_def model_filename_best constant_pipeline_def
      inverse_transform_def risk_encoder_def Let_def)

end
